theory Spec2Isabelle
  imports Main "HOL-Library.AList" "HOL-Library.Sublist"
begin

section \<open>JavaScript values and exceptions\<close>

text \<open>
  The library is TypeScript running in a browser.  Values that cross an untyped
  boundary (the result of \<^verbatim>\<open>JSON.parse\<close>, the argument of \<^verbatim>\<open>validateSchema(data: any)\<close>)
  are values of \<open>js\<close>; an object is the list of its own properties in insertion order.
  Numbers are integers here: the code only produces and compares policy revisions.
\<close>

datatype js =
    JUndefined
  | JNull
  | JBool bool
  | JNum int
  | JStr string
  | JArr "js list"
  | JObj "(string \<times> js) list"

text \<open>Exceptions are values; a call that may throw returns an \<open>outcome\<close>.\<close>

datatype error =
    Error string
  | TypeError string
  | SyntaxError string
  | QuotaExceededError
  | SecurityError

datatype 'a outcome = Returns 'a | Throws error

text \<open>\<^verbatim>\<open>typeof v\<close>.\<close>

fun typeof :: "js \<Rightarrow> string" where
  "typeof JUndefined = ''undefined''"
| "typeof JNull = ''object''"
| "typeof (JBool b) = ''boolean''"
| "typeof (JNum n) = ''number''"
| "typeof (JStr s) = ''string''"
| "typeof (JArr xs) = ''object''"
| "typeof (JObj kvs) = ''object''"

text \<open>Truthiness, as \<^verbatim>\<open>if (v)\<close>, \<^verbatim>\<open>!v\<close> and \<^verbatim>\<open>v && ...\<close> test it.\<close>

fun truthy :: "js \<Rightarrow> bool" where
  "truthy JUndefined = False"
| "truthy JNull = False"
| "truthy (JBool b) = b"
| "truthy (JNum n) = (n \<noteq> 0)"
| "truthy (JStr s) = (s \<noteq> [])"
| "truthy (JArr xs) = True"
| "truthy (JObj kvs) = True"

text \<open>
  The names every ordinary object inherits from \<^verbatim>\<open>Object.prototype\<close> (ECMAScript,
  including Annex B).  The operator \<^verbatim>\<open>key in obj\<close> is true for an own property of
  \<open>obj\<close> and for each of these names.
\<close>

definition Object_prototype_names :: "string list" where
  "Object_prototype_names =
     [''constructor'', ''hasOwnProperty'', ''isPrototypeOf'', ''propertyIsEnumerable'',
      ''toLocaleString'', ''toString'', ''valueOf'', ''__proto__'',
      ''__defineGetter__'', ''__defineSetter__'', ''__lookupGetter__'', ''__lookupSetter__'']"

definition js_in :: "string \<Rightarrow> (string \<times> 'a) list \<Rightarrow> bool" where
  "js_in key obj = (key \<in> set (map fst obj) \<or> key \<in> set Object_prototype_names)"

text \<open>
  \<^verbatim>\<open>data.name\<close> for a value \<open>data\<close> that is not null or undefined, and a \<open>name\<close> that
  no built-in prototype defines (all names the code reads this way are of that kind:
  version, timestamp, categories, userAgent, expiresAt): the own property of an object,
  undefined otherwise.
\<close>

fun js_get :: "js \<Rightarrow> string \<Rightarrow> js" where
  "js_get (JObj kvs) name = (case map_of kvs name of None \<Rightarrow> JUndefined | Some v \<Rightarrow> v)"
| "js_get v name = JUndefined"

section \<open>Types of the library (types.ts)\<close>

text \<open>
  \<^verbatim>\<open>ConsentCategories\<close>: an object from category keys to booleans, as the list of its own
  properties.  \<^verbatim>\<open>categories.k\<close> is \<open>map_of categories k\<close>, with \<open>None\<close> for undefined.
\<close>

type_synonym ConsentCategories = "(string \<times> bool) list"

record CategoryConfig =
  enabled :: bool
  readOnly :: bool
  label :: string
  description :: string

text \<open>
  \<^verbatim>\<open>ConsentConfig\<close>, the fields the consent logic reads.  The optional fields that
  \<^verbatim>\<open>validateConfig\<close> defaults are options, \<open>None\<close> for undefined.
\<close>

record ConsentConfig =
  autoShow :: "bool option"
  revision :: int
  config_categories :: "(string \<times> CategoryConfig) list"
  showWidget :: "bool option"
  gtmConsentMode :: "bool option"

record ConsentRecord =
  version :: int
  timestamp :: string
  categories :: ConsentCategories
  userAgent :: string
  expiresAt :: string

section \<open>Dates\<close>

text \<open>
  A \<^verbatim>\<open>Date\<close> in its calendar fields, as \<^verbatim>\<open>getFullYear\<close>, \<^verbatim>\<open>getMonth\<close> (0 to 11),
  \<^verbatim>\<open>getDate\<close> (1 to 31) and the time within the day return them.  The local time zone
  is UTC, so the local fields that \<^verbatim>\<open>setMonth\<close> works on are the fields that
  \<^verbatim>\<open>toISOString\<close> prints.
\<close>

record Date =
  year :: int
  month :: nat
  date :: nat
  hours :: nat
  minutes :: nat
  seconds :: nat
  milliseconds :: nat

definition leap_year :: "int \<Rightarrow> bool" where
  "leap_year y = (y mod 4 = 0 \<and> (y mod 100 \<noteq> 0 \<or> y mod 400 = 0))"

definition daysInMonth :: "int \<Rightarrow> nat \<Rightarrow> nat" where
  "daysInMonth y m =
     (if m = 1 then (if leap_year y then 29 else 28)
      else if m = 3 \<or> m = 5 \<or> m = 8 \<or> m = 10 then 30
      else 31)"

text \<open>
  \<^verbatim>\<open>d.setMonth(m)\<close> for \<open>m \<ge> 0\<close>.  ECMAScript's MakeDay(year, m, date) takes the first
  day of month \<open>m mod 12\<close> of year \<open>year + m div 12\<close> and adds \<open>date - 1\<close> days.  When
  that month has fewer than \<open>date\<close> days the result runs over into the month after it
  (a valid date is at most 31 and every month has at least 28 days, so it never runs
  further).
\<close>

definition setMonth :: "Date \<Rightarrow> nat \<Rightarrow> Date" where
  "setMonth d m =
     (let ym = year d + int (m div 12);
          mn = m mod 12;
          dim = daysInMonth ym mn
      in if date d \<le> dim then d\<lparr>year := ym, month := mn\<rparr>
         else d\<lparr>year := (if mn = 11 then ym + 1 else ym),
                 month := (if mn = 11 then 0 else mn + 1),
                 date := date d - dim\<rparr>)"

text \<open>Decimal digits, zero-padded to a width.\<close>

fun pad :: "nat \<Rightarrow> nat \<Rightarrow> string" where
  "pad 0 n = []"
| "pad (Suc k) n = pad k (n div 10) @ [''0123456789'' ! (n mod 10)]"

text \<open>\<^verbatim>\<open>toISOString\<close>: \<^verbatim>\<open>YYYY-MM-DDTHH:mm:ss.sssZ\<close>, six signed digits for a year outside 0 to 9999.\<close>

definition toISOString :: "Date \<Rightarrow> string" where
  "toISOString d =
     (if 0 \<le> year d \<and> year d \<le> 9999 then pad 4 (nat (year d))
      else (if year d < 0 then ''-'' else ''+'') @ pad 6 (nat \<bar>year d\<bar>))
     @ ''-'' @ pad 2 (month d + 1) @ ''-'' @ pad 2 (date d)
     @ ''T'' @ pad 2 (hours d) @ '':'' @ pad 2 (minutes d) @ '':'' @ pad 2 (seconds d)
     @ ''.'' @ pad 3 (milliseconds d) @ ''Z''"

text \<open>\<^verbatim>\<open>d1 < d2\<close> on dates compares the instants: lexicographic on the fields of valid dates.\<close>

definition Date_key :: "Date \<Rightarrow> int list" where
  "Date_key d = [year d, int (month d), int (date d), int (hours d), int (minutes d),
                 int (seconds d), int (milliseconds d)]"

fun lex_less :: "int list \<Rightarrow> int list \<Rightarrow> bool" where
  "lex_less (x # xs) (y # ys) = (x < y \<or> (x = y \<and> lex_less xs ys))"
| "lex_less xs ys = False"

definition Date_less :: "Date \<Rightarrow> Date \<Rightarrow> bool" where
  "Date_less d1 d2 = lex_less (Date_key d1) (Date_key d2)"

section \<open>The platform\<close>

text \<open>
  What the browser provides and the repository does not define: \<^verbatim>\<open>JSON.stringify\<close>
  (\<open>None\<close>: it throws a TypeError), \<^verbatim>\<open>JSON.parse\<close> (\<open>None\<close>: it throws a SyntaxError),
  the \<^verbatim>\<open>Date\<close> constructor on a string (\<open>None\<close>: an Invalid Date),
  \<^verbatim>\<open>navigator.userAgent\<close>, the text that \<^verbatim>\<open>`inline-${Date.now()}-${Math.random()}`\<close>
  evaluates to at its n-th evaluation, and the URL that the property \<^verbatim>\<open>src\<close> of a script
  element returns for the value of its \<^verbatim>\<open>src\<close> attribute (the value parsed against the
  address of the document and serialised, or the value itself when it does not parse).
\<close>

record platform =
  JSON_stringify :: "js \<Rightarrow> string option"
  JSON_parse :: "string \<Rightarrow> js option"
  Date_of_string :: "string \<Rightarrow> Date option"
  navigator_userAgent :: string
  inline_id :: "nat \<Rightarrow> string"
  resolve_url :: "string \<Rightarrow> string"

section \<open>ConsentManager (core/ConsentManager.ts)\<close>

record ConsentManager =
  config :: ConsentConfig
  consent :: "ConsentRecord option"

definition ConsentManager_new :: "ConsentConfig \<Rightarrow> ConsentManager" where
  "ConsentManager_new cfg = \<lparr>config = cfg, consent = None\<rparr>"

text \<open>The loop \<^verbatim>\<open>for (const key of Object.keys(categories)) if (!(key in config.categories)) return false\<close>.\<close>

fun keys_in_config :: "(string \<times> CategoryConfig) list \<Rightarrow> string list \<Rightarrow> bool" where
  "keys_in_config cc [] = True"
| "keys_in_config cc (key # keys) = (if \<not> js_in key cc then False else keys_in_config cc keys)"

definition validateConsent :: "ConsentManager \<Rightarrow> ConsentCategories \<Rightarrow> bool" where
  "validateConsent m cats =
     (if map_of cats ''necessary'' \<noteq> Some True then False
      else keys_in_config (config_categories (config m)) (map fst cats))"

definition createConsentRecord :: "platform \<Rightarrow> Date \<Rightarrow> ConsentManager \<Rightarrow> ConsentCategories \<Rightarrow> ConsentRecord" where
  "createConsentRecord p now m cats =
     (let expiryDate = setMonth now (month now + 13)
      in \<lparr>version = revision (config m),
          timestamp = toISOString now,
          categories = cats,
          userAgent = navigator_userAgent p,
          expiresAt = toISOString expiryDate\<rparr>)"

definition updateConsent :: "platform \<Rightarrow> Date \<Rightarrow> ConsentCategories \<Rightarrow> ConsentManager \<Rightarrow> ConsentRecord outcome \<times> ConsentManager" where
  "updateConsent p now cats m =
     (if \<not> validateConsent m cats then (Throws (Error ''Invalid consent categories''), m)
      else let r = createConsentRecord p now m cats
           in (Returns r, m\<lparr>consent := Some r\<rparr>))"

definition needsConsent :: "ConsentManager \<Rightarrow> bool" where
  "needsConsent m = (consent m = None)"

definition needsUpdate :: "ConsentManager \<Rightarrow> ConsentRecord \<Rightarrow> bool" where
  "needsUpdate m storedConsent = (version storedConsent < revision (config m))"

section \<open>StorageManager (core/StorageManager.ts)\<close>

text \<open>
  \<^verbatim>\<open>localStorage\<close>: the stored items.  A write of a text longer than \<open>capacity\<close> throws
  QuotaExceededError, and every access throws SecurityError when the storage is not
  \<open>accessible\<close> (a browser that denies storage to the page).
\<close>

record Storage =
  items :: "string \<Rightarrow> string option"
  capacity :: nat
  accessible :: bool

definition setItem :: "string \<Rightarrow> string \<Rightarrow> Storage \<Rightarrow> unit outcome \<times> Storage" where
  "setItem key val s =
     (if \<not> accessible s then (Throws SecurityError, s)
      else if capacity s < length val then (Throws QuotaExceededError, s)
      else (Returns (), s\<lparr>items := (items s)(key \<mapsto> val)\<rparr>))"

definition getItem :: "string \<Rightarrow> Storage \<Rightarrow> string option outcome" where
  "getItem key s = (if \<not> accessible s then Throws SecurityError else Returns (items s key))"

definition removeItem :: "string \<Rightarrow> Storage \<Rightarrow> unit outcome \<times> Storage" where
  "removeItem key s =
     (if \<not> accessible s then (Throws SecurityError, s)
      else (Returns (), s\<lparr>items := (items s)(key := None)\<rparr>))"

text \<open>The part of the browser window the storage manager touches; \<open>console\<close> holds the lines written by \<^verbatim>\<open>console.error\<close> and \<^verbatim>\<open>console.log\<close>.\<close>

record Window =
  localStorage :: Storage
  console :: "string list"

text \<open>\<^verbatim>\<open>try { body } catch (e) { handler(e) }\<close> on a state \<open>'s\<close>.\<close>

definition try_catch :: "('a outcome \<times> 's) \<Rightarrow> (error \<Rightarrow> 's \<Rightarrow> 'a outcome \<times> 's) \<Rightarrow> 'a outcome \<times> 's" where
  "try_catch body handler =
     (case body of (Returns v, s) \<Rightarrow> (Returns v, s) | (Throws e, s) \<Rightarrow> handler e s)"

definition console_print :: "string \<Rightarrow> Window \<Rightarrow> Window" where
  "console_print line w = w\<lparr>console := console w @ [line]\<rparr>"

definition STORAGE_KEY :: string where
  "STORAGE_KEY = ''cookiecraft_consent''"

text \<open>A \<^verbatim>\<open>ConsentRecord\<close> as the object it is at run time, properties in the order of the object literal in \<^verbatim>\<open>createConsentRecord\<close>.\<close>

definition ConsentCategories_js :: "ConsentCategories \<Rightarrow> js" where
  "ConsentCategories_js cats = JObj (map (\<lambda>(k, b). (k, JBool b)) cats)"

definition ConsentRecord_js :: "ConsentRecord \<Rightarrow> js" where
  "ConsentRecord_js r =
     JObj [(''version'', JNum (version r)),
           (''timestamp'', JStr (timestamp r)),
           (''categories'', ConsentCategories_js (categories r)),
           (''userAgent'', JStr (userAgent r)),
           (''expiresAt'', JStr (expiresAt r))]"

text \<open>The body of the \<^verbatim>\<open>try\<close> in \<^verbatim>\<open>save\<close>, and \<^verbatim>\<open>save\<close>.\<close>

definition save_body :: "platform \<Rightarrow> ConsentRecord \<Rightarrow> Window \<Rightarrow> unit outcome \<times> Window" where
  "save_body p consentRecord w =
     (case JSON_stringify p (ConsentRecord_js consentRecord) of
        None \<Rightarrow> (Throws (TypeError ''JSON.stringify''), w)
      | Some text \<Rightarrow>
          (case setItem STORAGE_KEY text (localStorage w) of
             (Returns u, s) \<Rightarrow> (Returns (), w\<lparr>localStorage := s\<rparr>)
           | (Throws e, s) \<Rightarrow> (Throws e, w\<lparr>localStorage := s\<rparr>)))"

definition save :: "platform \<Rightarrow> ConsentRecord \<Rightarrow> Window \<Rightarrow> unit outcome \<times> Window" where
  "save p consentRecord w =
     try_catch (save_body p consentRecord w)
       (\<lambda>e w'. (Returns (), console_print ''Failed to save consent:'' w'))"

definition validateSchema :: "js \<Rightarrow> bool" where
  "validateSchema data =
     (truthy data \<and>
      typeof (js_get data ''version'') = ''number'' \<and>
      typeof (js_get data ''timestamp'') = ''string'' \<and>
      typeof (js_get data ''categories'') = ''object'' \<and>
      typeof (js_get data ''userAgent'') = ''string'' \<and>
      typeof (js_get data ''expiresAt'') = ''string'')"

definition migrate :: "js \<Rightarrow> ConsentRecord option" where
  "migrate oldData = None"

text \<open>The body of the \<^verbatim>\<open>try\<close> in \<^verbatim>\<open>load\<close>, and \<^verbatim>\<open>load\<close>.  The result is the parsed value itself (\<open>None\<close> for null).\<close>

definition load_body :: "platform \<Rightarrow> Window \<Rightarrow> js option outcome \<times> Window" where
  "load_body p w =
     (case getItem STORAGE_KEY (localStorage w) of
        Throws e \<Rightarrow> (Throws e, w)
      | Returns None \<Rightarrow> (Returns None, w)
      | Returns (Some data) \<Rightarrow>
          if data = [] then (Returns None, w)
          else (case JSON_parse p data of
                  None \<Rightarrow> (Throws (SyntaxError ''JSON.parse''), w)
                | Some parsed \<Rightarrow>
                    if \<not> validateSchema parsed then
                      (case migrate parsed of
                         Some migrated \<Rightarrow>
                           (case save p migrated w of
                              (Returns u, w') \<Rightarrow> (Returns (Some (ConsentRecord_js migrated)), w')
                            | (Throws e, w') \<Rightarrow> (Throws e, w'))
                       | None \<Rightarrow> (Returns None, w))
                    else (Returns (Some parsed), w)))"

definition load :: "platform \<Rightarrow> Window \<Rightarrow> js option outcome \<times> Window" where
  "load p w =
     try_catch (load_body p w)
       (\<lambda>e w'. (Returns None, console_print ''Failed to load consent:'' w'))"

definition clear :: "Window \<Rightarrow> unit outcome \<times> Window" where
  "clear w =
     (case removeItem STORAGE_KEY (localStorage w) of
        (r, s) \<Rightarrow> (r, w\<lparr>localStorage := s\<rparr>))"

text \<open>\<^verbatim>\<open>new Date(consent.expiresAt) < new Date()\<close>; a comparison with an Invalid Date is false.\<close>

definition isExpired :: "platform \<Rightarrow> Date \<Rightarrow> ConsentRecord \<Rightarrow> bool" where
  "isExpired p now consentRecord =
     (case Date_of_string p (expiresAt consentRecord) of
        None \<Rightarrow> False
      | Some expiry \<Rightarrow> Date_less expiry now)"

text \<open>
  \<^verbatim>\<open>load(): ConsentRecord | null\<close> returns the parsed value under the type
  \<^verbatim>\<open>ConsentRecord\<close> without converting it.  The typed reading of a value that passed
  \<^verbatim>\<open>validateSchema\<close>: the number and the three strings are as stored; of the categories
  the script blocker only ever tests \<^verbatim>\<open>categories[c] === true\<close>, which is what the
  reading keeps of each property: of an object its own properties, of an array its
  elements under their indices in decimal, of a boolean, a number or a string nothing
  that is \<^verbatim>\<open>true\<close>.  Reading a property of null or undefined throws; the callers test for
  these two values before they read (\<open>applyConsent_stored\<close> below).
\<close>

fun decimal :: "nat \<Rightarrow> string" where
  "decimal n = (if n < 10 then [''0123456789'' ! n]
                else decimal (n div 10) @ [''0123456789'' ! (n mod 10)])"

declare decimal.simps [simp del]

definition ConsentCategories_of_js :: "js \<Rightarrow> ConsentCategories" where
  "ConsentCategories_of_js v =
     (case v of
        JObj kvs \<Rightarrow> map (\<lambda>(k, x). (k, x = JBool True)) kvs
      | JArr xs \<Rightarrow> map (\<lambda>(i, x). (decimal i, x = JBool True)) (enumerate 0 xs)
      | _ \<Rightarrow> [])"

definition ConsentRecord_of_js :: "js \<Rightarrow> ConsentRecord" where
  "ConsentRecord_of_js v =
     \<lparr>version = (case js_get v ''version'' of JNum n \<Rightarrow> n | _ \<Rightarrow> 0),
      timestamp = (case js_get v ''timestamp'' of JStr s \<Rightarrow> s | _ \<Rightarrow> []),
      categories = ConsentCategories_of_js (js_get v ''categories''),
      userAgent = (case js_get v ''userAgent'' of JStr s \<Rightarrow> s | _ \<Rightarrow> []),
      expiresAt = (case js_get v ''expiresAt'' of JStr s \<Rightarrow> s | _ \<Rightarrow> [])\<rparr>"

section \<open>CategoryManager (blocking/CategoryManager.ts)\<close>

text \<open>
  A script element: its attributes in order and its text.  The properties \<^verbatim>\<open>src\<close> and
  \<^verbatim>\<open>type\<close> reflect the attributes of the same name, the empty string when absent;
  \<^verbatim>\<open>type\<close> returns the value of a present attribute as it is, \<^verbatim>\<open>src\<close> returns the URL
  it resolves to.  Assigning to either property sets the attribute to the assigned text.
\<close>

record Element =
  tagName :: string
  attributes :: "(string \<times> string) list"
  textContent :: string

definition getAttribute :: "Element \<Rightarrow> string \<Rightarrow> string option" where
  "getAttribute el name = map_of (attributes el) name"

definition hasAttribute :: "Element \<Rightarrow> string \<Rightarrow> bool" where
  "hasAttribute el name = (map_of (attributes el) name \<noteq> None)"

definition setAttribute :: "string \<Rightarrow> string \<Rightarrow> Element \<Rightarrow> Element" where
  "setAttribute name val el = el\<lparr>attributes := AList.update name val (attributes el)\<rparr>"

definition src_prop :: "platform \<Rightarrow> Element \<Rightarrow> string" where
  "src_prop p el = (case getAttribute el ''src'' of None \<Rightarrow> [] | Some v \<Rightarrow> resolve_url p v)"

definition type_prop :: "Element \<Rightarrow> string" where
  "type_prop el = (case getAttribute el ''type'' of None \<Rightarrow> [] | Some v \<Rightarrow> v)"

text \<open>\<^verbatim>\<open>s.includes(pattern)\<close>: \<open>pattern\<close> occurs in \<open>s\<close>.\<close>

fun str_includes :: "string \<Rightarrow> string \<Rightarrow> bool" where
  "str_includes [] pattern = (pattern = [])"
| "str_includes (c # cs) pattern = (prefix pattern (c # cs) \<or> str_includes cs pattern)"

text \<open>The registry, a \<^verbatim>\<open>Map<string, string[]>\<close> in insertion order.\<close>

type_synonym CategoryManager = "(string \<times> string list) list"

definition initializeDefaultPatterns :: CategoryManager where
  "initializeDefaultPatterns =
     [(''analytics'',
        [''google-analytics.com'', ''googletagmanager.com'', ''analytics.google.com'',
         ''plausible.io'', ''matomo.org'', ''hotjar.com'', ''mixpanel.com'', ''segment.com'',
         ''amplitude.com'']),
      (''marketing'',
        [''facebook.net'', ''facebook.com/tr'', ''connect.facebook.net'', ''doubleclick.net'',
         ''ads.google.com'', ''linkedin.com/analytics'', ''twitter.com/i/adsct'',
         ''pinterest.com/ct'', ''adroll.com'', ''taboola.com'', ''outbrain.com'']),
      (''necessary'', [])]"

definition registerCategory :: "string \<Rightarrow> string list \<Rightarrow> CategoryManager \<Rightarrow> CategoryManager" where
  "registerCategory name patterns cm = AList.update name patterns cm"

text \<open>The loop over the registry in \<^verbatim>\<open>getCategoryForScript\<close>.\<close>

fun match_src :: "CategoryManager \<Rightarrow> string \<Rightarrow> string option" where
  "match_src [] src = None"
| "match_src ((category, patterns) # rest) src =
     (if list_ex (\<lambda>pattern. str_includes src pattern) patterns then Some category
      else match_src rest src)"

definition getCategoryForScript :: "platform \<Rightarrow> CategoryManager \<Rightarrow> Element \<Rightarrow> string option" where
  "getCategoryForScript p cm script =
     (let by_src = (let src = src_prop p script in if src = [] then None else match_src cm src)
      in case getAttribute script ''data-cookieconsent'' of
           None \<Rightarrow> by_src
         | Some explicitCategory \<Rightarrow> if explicitCategory \<noteq> [] then Some explicitCategory else by_src)"

definition isAllowed :: "string \<Rightarrow> ConsentCategories \<Rightarrow> bool" where
  "isAllowed category consentCategories = (map_of consentCategories category = Some True)"

section \<open>ScriptBlocker (blocking/ScriptBlocker.ts)\<close>

text \<open>
  The blocker together with the part of the page it works on.  Elements are objects
  with identity: \<open>heap\<close> gives the element behind each reference, \<open>document\<close> lists
  the references of the elements attached to the document, in tree order, and
  \<open>next_ref\<close> is the reference \<^verbatim>\<open>document.createElement\<close> hands out next.
  \<open>blockedScripts\<close> is the \<^verbatim>\<open>Map<string, HTMLScriptElement>\<close> in insertion order,
  \<open>observer\<close> tells whether the MutationObserver is connected, \<open>emitted\<close> lists the
  events passed to \<^verbatim>\<open>eventEmitter.emit\<close> (their subscribers are callers' code), and
  \<open>ids_generated\<close> counts the identifiers generated for inline scripts.
\<close>

record ScriptBlocker =
  heap :: "nat \<Rightarrow> Element"
  document :: "nat list"
  next_ref :: nat
  blockedScripts :: "(string \<times> nat) list"
  currentConsent :: "ConsentCategories option"
  observer :: bool
  categoryManager :: CategoryManager
  emitted :: "(string \<times> js) list"
  ids_generated :: nat

definition ScriptBlocker_new :: "CategoryManager \<Rightarrow> (nat \<Rightarrow> Element) \<Rightarrow> nat list \<Rightarrow> nat \<Rightarrow> ScriptBlocker" where
  "ScriptBlocker_new cm h doc n =
     \<lparr>heap = h, document = doc, next_ref = n, blockedScripts = [], currentConsent = None,
      observer = False, categoryManager = cm, emitted = [], ids_generated = 0\<rparr>"

definition emit_event :: "string \<Rightarrow> js \<Rightarrow> ScriptBlocker \<Rightarrow> ScriptBlocker" where
  "emit_event event payload b = b\<lparr>emitted := emitted b @ [(event, payload)]\<rparr>"

definition generateScriptId :: "platform \<Rightarrow> Element \<Rightarrow> ScriptBlocker \<Rightarrow> string \<times> ScriptBlocker" where
  "generateScriptId p script b =
     (if src_prop p script \<noteq> [] then (src_prop p script, b)
      else (inline_id p (ids_generated b), b\<lparr>ids_generated := Suc (ids_generated b)\<rparr>))"

definition processScript :: "platform \<Rightarrow> nat \<Rightarrow> ScriptBlocker \<Rightarrow> ScriptBlocker" where
  "processScript p script b =
     (case getCategoryForScript p (categoryManager b) (heap b script) of
        None \<Rightarrow> b
      | Some category \<Rightarrow>
          if category = [] then b
          else if (case currentConsent b of None \<Rightarrow> False | Some c \<Rightarrow> isAllowed category c) then b
          else if type_prop (heap b script) \<noteq> ''text/plain'' then
            (case generateScriptId p (heap b script) b of
               (sid, b1) \<Rightarrow>
                 let originalType = (if type_prop (heap b script) \<noteq> [] then type_prop (heap b script)
                                     else ''text/javascript'');
                     el1 = setAttribute ''data-original-type'' originalType (heap b script);
                     el2 = setAttribute ''type'' ''text/plain'' el1
                 in b1\<lparr>heap := (heap b1)(script := el2),
                        blockedScripts := AList.update sid script (blockedScripts b1)\<rparr>)
          else b)"

text \<open>\<^verbatim>\<open>document.querySelectorAll('script[data-cookieconsent]')\<close>, a static list.\<close>

definition is_marked_script :: "ScriptBlocker \<Rightarrow> nat \<Rightarrow> bool" where
  "is_marked_script b node =
     (tagName (heap b node) = ''script'' \<and> hasAttribute (heap b node) ''data-cookieconsent'')"

definition querySelectorAll_scripts :: "ScriptBlocker \<Rightarrow> nat list" where
  "querySelectorAll_scripts b = filter (is_marked_script b) (document b)"

definition blockExistingScripts :: "platform \<Rightarrow> ScriptBlocker \<Rightarrow> ScriptBlocker" where
  "blockExistingScripts p b = fold (processScript p) (querySelectorAll_scripts b) b"

text \<open>The callback of the MutationObserver on a batch of mutations, each with its added nodes.\<close>

definition observer_callback :: "platform \<Rightarrow> nat list list \<Rightarrow> ScriptBlocker \<Rightarrow> ScriptBlocker" where
  "observer_callback p mutations b =
     fold (\<lambda>addedNodes. fold (\<lambda>node b'. if is_marked_script b' node then processScript p node b' else b')
                              addedNodes)
          mutations b"

definition observeDOM :: "ScriptBlocker \<Rightarrow> ScriptBlocker" where
  "observeDOM b = b\<lparr>observer := True\<rparr>"

definition ScriptBlocker_init :: "platform \<Rightarrow> ScriptBlocker \<Rightarrow> ScriptBlocker" where
  "ScriptBlocker_init p b = observeDOM (blockExistingScripts p b)"

definition block :: "platform \<Rightarrow> ScriptBlocker \<Rightarrow> ScriptBlocker" where
  "block p b = blockExistingScripts p (b\<lparr>currentConsent := None\<rparr>)"

definition destroy :: "ScriptBlocker \<Rightarrow> ScriptBlocker" where
  "destroy b = b\<lparr>observer := False\<rparr>"

text \<open>\<^verbatim>\<open>parent.insertBefore(newNode, node)\<close> and \<^verbatim>\<open>parent.removeChild(node)\<close> on the list of attached nodes.\<close>

fun insertBefore :: "nat \<Rightarrow> nat \<Rightarrow> nat list \<Rightarrow> nat list" where
  "insertBefore newNode node [] = []"
| "insertBefore newNode node (x # xs) =
     (if x = node then newNode # x # xs else x # insertBefore newNode node xs)"

definition removeChild :: "nat \<Rightarrow> nat list \<Rightarrow> nat list" where
  "removeChild node doc = remove1 node doc"

text \<open>
  \<^verbatim>\<open>reactivateScript\<close>.  \<open>newScript_element old\<close> is the element that the function
  builds from the blocked one: created empty, given the attributes of \<open>old\<close> other than
  \<open>type\<close> and \<open>data-original-type\<close>, then the original type, then the source or else
  the text.  An element has a parent node when it is attached to the document.
\<close>

definition newScript_element :: "platform \<Rightarrow> Element \<Rightarrow> Element" where
  "newScript_element p old =
     (let el0 = \<lparr>tagName = ''script'', attributes = [], textContent = []\<rparr>;
          el1 = fold (\<lambda>(name, val) el.
                        if name \<noteq> ''type'' \<and> name \<noteq> ''data-original-type''
                        then setAttribute name val el else el)
                     (attributes old) el0;
          originalType = (case getAttribute old ''data-original-type'' of
                            None \<Rightarrow> ''text/javascript''
                          | Some t \<Rightarrow> if t \<noteq> [] then t else ''text/javascript'');
          el2 = setAttribute ''type'' originalType el1
      in if src_prop p old \<noteq> [] then setAttribute ''src'' (src_prop p old) el2
         else el2\<lparr>textContent := textContent old\<rparr>)"

definition activated_payload :: "platform \<Rightarrow> Element \<Rightarrow> js" where
  "activated_payload p old =
     JObj [(''category'', (case getAttribute old ''data-cookieconsent'' of
                             None \<Rightarrow> JNull | Some c \<Rightarrow> JStr c)),
           (''src'', JStr (if src_prop p old \<noteq> [] then src_prop p old else ''inline''))]"

definition reactivateScript :: "platform \<Rightarrow> nat \<Rightarrow> ScriptBlocker \<Rightarrow> ScriptBlocker" where
  "reactivateScript p script b =
     (let newScript = next_ref b;
          doc' = (if script \<in> set (document b)
                  then removeChild script (insertBefore newScript script (document b))
                  else document b)
      in emit_event ''script:activated'' (activated_payload p (heap b script))
           (b\<lparr>heap := (heap b)(newScript := newScript_element p (heap b script)),
              next_ref := Suc newScript, document := doc'\<rparr>))"

text \<open>The callback of \<^verbatim>\<open>blockedScripts.forEach\<close> in \<^verbatim>\<open>unblock\<close>, and \<^verbatim>\<open>unblock\<close>.\<close>

definition unblock_entry :: "platform \<Rightarrow> ConsentCategories \<Rightarrow> string \<times> nat \<Rightarrow> ScriptBlocker \<Rightarrow> ScriptBlocker" where
  "unblock_entry p cats entry b =
     (case entry of (sid, script) \<Rightarrow>
        (case getCategoryForScript p (categoryManager b) (heap b script) of
           None \<Rightarrow> b
         | Some category \<Rightarrow>
             if category \<noteq> [] \<and> isAllowed category cats
             then (let b' = reactivateScript p script b
                   in b'\<lparr>blockedScripts := AList.delete sid (blockedScripts b')\<rparr>)
             else b))"

definition unblock :: "platform \<Rightarrow> ConsentCategories \<Rightarrow> ScriptBlocker \<Rightarrow> ScriptBlocker" where
  "unblock p cats b =
     (let b1 = b\<lparr>currentConsent := Some cats\<rparr>
      in fold (unblock_entry p cats) (blockedScripts b1) b1)"

text \<open>
  The states the blocker can be in: the keys of the map are distinct, an element is
  attached to the document once, and every reference in use was handed out before
  \<open>next_ref\<close>.
\<close>

definition doc_inv :: "ScriptBlocker \<Rightarrow> bool" where
  "doc_inv b = (distinct (document b) \<and> (\<forall>x \<in> set (document b). x < next_ref b))"

definition wf_ScriptBlocker :: "ScriptBlocker \<Rightarrow> bool" where
  "wf_ScriptBlocker b =
     (distinct (map fst (blockedScripts b)) \<and>
      (\<forall>e \<in> set (blockedScripts b). snd e < next_ref b) \<and>
      doc_inv b)"

text \<open>The three tests of \<^verbatim>\<open>processScript\<close> together: the script is one that the call withholds.\<close>

definition withholds :: "platform \<Rightarrow> ScriptBlocker \<Rightarrow> nat \<Rightarrow> bool" where
  "withholds p b script =
     (case getCategoryForScript p (categoryManager b) (heap b script) of
        None \<Rightarrow> False
      | Some category \<Rightarrow>
          category \<noteq> [] \<and>
          \<not> (case currentConsent b of None \<Rightarrow> False | Some c \<Rightarrow> isAllowed category c) \<and>
          type_prop (heap b script) \<noteq> ''text/plain'')"

text \<open>The test of \<^verbatim>\<open>unblock\<close> on an entry: its script has a category and the category is allowed.\<close>

definition releasable :: "platform \<Rightarrow> ConsentCategories \<Rightarrow> ScriptBlocker \<Rightarrow> nat \<Rightarrow> bool" where
  "releasable p cats b script =
     (case getCategoryForScript p (categoryManager b) (heap b script) of
        None \<Rightarrow> False
      | Some category \<Rightarrow> category \<noteq> [] \<and> isAllowed category cats)"

section \<open>CookieConsent (core/CookieConsent.ts)\<close>

text \<open>
  The orchestrator.  \<^verbatim>\<open>this.config\<close> is the configuration of the consent manager
  (the constructor passes it the same object).  Of the banner and the floating widget
  only whether they are shown is kept; \<open>timers\<close> lists the callbacks handed to
  \<^verbatim>\<open>setTimeout\<close>; \<open>dataLayer\<close> is \<^verbatim>\<open>window.dataLayer\<close>.
\<close>

record CookieConsent =
  consentManager :: ConsentManager
  window :: Window
  scriptBlocker :: ScriptBlocker
  banner :: bool
  floatingWidget :: bool
  gtmIntegration :: bool
  dataLayer :: "js list"
  timers :: "string list"

definition validateConfig :: "ConsentConfig \<Rightarrow> ConsentConfig" where
  "validateConfig cfg =
     cfg\<lparr>autoShow := Some (case autoShow cfg of None \<Rightarrow> True | Some v \<Rightarrow> v),
         revision := (if revision cfg = 0 then 1 else revision cfg),
         gtmConsentMode := Some (gtmConsentMode cfg = Some True),
         showWidget := Some (case showWidget cfg of None \<Rightarrow> True | Some v \<Rightarrow> v)\<rparr>"

text \<open>The constructor, on a page given by its storage, its elements and its document.\<close>

definition CookieConsent_new :: "ConsentConfig \<Rightarrow> Storage \<Rightarrow> (nat \<Rightarrow> Element) \<Rightarrow> nat list \<Rightarrow> nat \<Rightarrow> CookieConsent" where
  "CookieConsent_new cfg st h doc n =
     \<lparr>consentManager = ConsentManager_new (validateConfig cfg),
      window = \<lparr>localStorage = st, console = []\<rparr>,
      scriptBlocker = ScriptBlocker_new initializeDefaultPatterns h doc n,
      banner = False,
      floatingWidget = False,
      gtmIntegration = (gtmConsentMode (validateConfig cfg) = Some True),
      dataLayer = [],
      timers = []\<rparr>"

definition showBanner :: "CookieConsent \<Rightarrow> CookieConsent" where
  "showBanner a = a\<lparr>banner := True, scriptBlocker := emit_event ''consent:show'' JUndefined (scriptBlocker a)\<rparr>"

definition showFloatingWidget :: "CookieConsent \<Rightarrow> CookieConsent" where
  "showFloatingWidget a = a\<lparr>floatingWidget := True\<rparr>"

definition applyConsent :: "platform \<Rightarrow> ConsentCategories \<Rightarrow> CookieConsent \<Rightarrow> CookieConsent" where
  "applyConsent p cats a = a\<lparr>scriptBlocker := unblock p cats (scriptBlocker a)\<rparr>"

text \<open>
  \<^verbatim>\<open>applyConsent(storedConsent.categories)\<close> in \<^verbatim>\<open>init\<close>, where the argument is the
  stored value as parsed.  On null (or undefined) \<^verbatim>\<open>unblock\<close> sets \<^verbatim>\<open>currentConsent\<close> to it
  and walks the map: an entry without category is passed over, and on the first entry
  with a category \<^verbatim>\<open>isAllowed\<close> reads a property of null and throws a TypeError, which
  nothing on the way catches.  On any other value it is \<open>applyConsent\<close> on the typed
  reading.
\<close>

definition unblock_null :: "platform \<Rightarrow> ScriptBlocker \<Rightarrow> unit outcome \<times> ScriptBlocker" where
  "unblock_null p b =
     (let b1 = b\<lparr>currentConsent := None\<rparr>
      in if list_ex (\<lambda>(sid, script).
                       case getCategoryForScript p (categoryManager b1) (heap b1 script) of
                         None \<Rightarrow> False
                       | Some category \<Rightarrow> category \<noteq> [])
                    (blockedScripts b1)
         then (Throws (TypeError ''Cannot read properties of null''), b1)
         else (Returns (), b1))"

definition applyConsent_stored :: "platform \<Rightarrow> js \<Rightarrow> CookieConsent \<Rightarrow> unit outcome \<times> CookieConsent" where
  "applyConsent_stored p v a =
     (if v = JNull \<or> v = JUndefined
      then (case unblock_null p (scriptBlocker a) of (r, b) \<Rightarrow> (r, a\<lparr>scriptBlocker := b\<rparr>))
      else (Returns (), applyConsent p (ConsentCategories_of_js v) a))"

text \<open>GTMConsentMode and DataLayerManager: what is pushed to \<^verbatim>\<open>window.dataLayer\<close>.\<close>

definition dataLayer_push :: "string \<Rightarrow> string \<Rightarrow> js \<Rightarrow> CookieConsent \<Rightarrow> CookieConsent" where
  "dataLayer_push command action params a =
     a\<lparr>dataLayer := dataLayer a @
          [JObj [(''event'', JStr ''consent_update''), (command, JObj [(action, params)])]]\<rparr>"

definition setDefaultConsent :: "CookieConsent \<Rightarrow> CookieConsent" where
  "setDefaultConsent a =
     dataLayer_push ''consent'' ''default''
       (JObj [(''ad_storage'', JStr ''denied''), (''ad_user_data'', JStr ''denied''),
              (''ad_personalization'', JStr ''denied''), (''analytics_storage'', JStr ''denied''),
              (''functionality_storage'', JStr ''denied''), (''personalization_storage'', JStr ''denied''),
              (''security_storage'', JStr ''granted'')]) a"

definition granted :: "ConsentCategories \<Rightarrow> string \<Rightarrow> js" where
  "granted cats k = JStr (if map_of cats k = Some True then ''granted'' else ''denied'')"

definition mapCategoriesToGTM :: "ConsentCategories \<Rightarrow> js" where
  "mapCategoriesToGTM cats =
     JObj [(''ad_storage'', granted cats ''marketing''), (''ad_user_data'', granted cats ''marketing''),
           (''ad_personalization'', granted cats ''marketing''),
           (''analytics_storage'', granted cats ''analytics''),
           (''functionality_storage'', granted cats ''preferences''),
           (''personalization_storage'', granted cats ''preferences''),
           (''security_storage'', JStr ''granted'')]"

definition gtm_updateConsent :: "ConsentCategories \<Rightarrow> CookieConsent \<Rightarrow> CookieConsent" where
  "gtm_updateConsent cats a = dataLayer_push ''consent'' ''update'' (mapCategoriesToGTM cats) a"

text \<open>\<^verbatim>\<open>init\<close>, at the time \<open>now\<close>.\<close>

definition init :: "platform \<Rightarrow> Date \<Rightarrow> CookieConsent \<Rightarrow> unit outcome \<times> CookieConsent" where
  "init p now a =
     (let a1 = a\<lparr>scriptBlocker := ScriptBlocker_init p (scriptBlocker a)\<rparr>;
          a2 = (if gtmIntegration a1 then setDefaultConsent a1 else a1)
      in case load p (window a2) of
           (Throws e, w) \<Rightarrow> (Throws e, a2\<lparr>window := w\<rparr>)
         | (Returns stored, w) \<Rightarrow>
             let a3 = a2\<lparr>window := w\<rparr>;
                 cfg = config (consentManager a3);
                 branch =
                   (case stored of
                      None \<Rightarrow> (Returns (), if autoShow cfg = Some True then showBanner a3 else a3)
                    | Some v \<Rightarrow>
                        let storedConsent = ConsentRecord_of_js v
                        in if \<not> isExpired p now storedConsent then
                             (if needsUpdate (consentManager a3) storedConsent then
                                (Returns (), if autoShow cfg = Some True then showBanner a3 else a3)
                              else
                                (case applyConsent_stored p (js_get v ''categories'') a3 of
                                   (Throws e, a5) \<Rightarrow> (Throws e, a5)
                                 | (Returns u, a5) \<Rightarrow>
                                     let a6 = a5\<lparr>scriptBlocker :=
                                                   emit_event ''consent:load'' v (scriptBlocker a5)\<rparr>
                                     in (Returns (),
                                         if showWidget cfg = Some True then showFloatingWidget a6 else a6)))
                           else (Returns (), if autoShow cfg = Some True then showBanner a3 else a3))
             in case branch of
                  (Throws e, a4) \<Rightarrow> (Throws e, a4)
                | (Returns u, a4) \<Rightarrow>
                    (Returns (),
                     a4\<lparr>scriptBlocker := emit_event ''consent:init'' JUndefined (scriptBlocker a4)\<rparr>))"

text \<open>\<^verbatim>\<open>CookieConsent.updateConsent\<close> (the pictographs of the logged lines are left out).\<close>

definition CookieConsent_updateConsent :: "platform \<Rightarrow> Date \<Rightarrow> ConsentCategories \<Rightarrow> CookieConsent \<Rightarrow> unit outcome \<times> CookieConsent" where
  "CookieConsent_updateConsent p now cats a =
     (case updateConsent p now cats (consentManager a) of
        (Throws e, m) \<Rightarrow> (Throws e, a\<lparr>consentManager := m\<rparr>)
      | (Returns consentRecord, m) \<Rightarrow>
          (case save p consentRecord (window a) of
             (Throws e, w) \<Rightarrow> (Throws e, a\<lparr>consentManager := m, window := w\<rparr>)
           | (Returns u, w) \<Rightarrow>
               let a1 = applyConsent p cats (a\<lparr>consentManager := m, window := w\<rparr>);
                   a2 = (if gtmIntegration a1 then gtm_updateConsent cats a1 else a1);
                   a3 = (if showWidget (config (consentManager a2)) = Some True
                         then a2\<lparr>window := console_print ''Widget will show in 400ms...'' (window a2),
                                 timers := timers a2 @ [''showFloatingWidget'']\<rparr>
                         else a2\<lparr>window := console_print ''Widget disabled in config'' (window a2)\<rparr>)
               in (Returns (), a3)))"

definition getConsent :: "platform \<Rightarrow> CookieConsent \<Rightarrow> js option outcome \<times> CookieConsent" where
  "getConsent p a = (case load p (window a) of (r, w) \<Rightarrow> (r, a\<lparr>window := w\<rparr>))"

definition reset :: "platform \<Rightarrow> CookieConsent \<Rightarrow> unit outcome \<times> CookieConsent" where
  "reset p a =
     (case clear (window a) of
        (Throws e, w) \<Rightarrow> (Throws e, a\<lparr>window := w\<rparr>)
      | (Returns u, w) \<Rightarrow>
          (Returns (), showBanner (a\<lparr>window := w, scriptBlocker := block p (scriptBlocker a)\<rparr>)))"

section \<open>EventEmitter (core/EventEmitter.ts)\<close>

text \<open>
  A handler is a function object, known by its identity.  What calling it does is given
  by \<open>call\<close>: on the payload and on what it can reach, that is the state \<open>'w\<close> of
  everything outside the emitter and the emitter itself (a handler may subscribe,
  unsubscribe and emit), it returns or throws, and leaves both changed.

  \<open>events\<close> is the \<^verbatim>\<open>Map<string, Set<Function>>\<close>.  The sets are objects with identity:
  the map holds the reference of each, \<open>sets\<close> gives the entries behind a reference and
  \<open>next_set\<close> is the reference that \<^verbatim>\<open>new Set()\<close> hands out next.  The entries of a set
  are those of ECMAScript's \<^verbatim>\<open>[[SetData]]\<close>: the members in insertion order, where
  \<^verbatim>\<open>delete\<close> leaves an empty entry (\<open>None\<close>) in the place of the member it removes and
  \<^verbatim>\<open>add\<close> appends a value that is not a member.
\<close>

type_synonym handler = nat

record EventEmitter =
  events :: "(string \<times> nat) list"
  sets :: "nat \<Rightarrow> handler option list"
  next_set :: nat



definition Set_delete :: "handler \<Rightarrow> handler option list \<Rightarrow> handler option list" where
  "Set_delete callback entries = map (\<lambda>e. if e = Some callback then None else e) entries"

definition Set_members :: "handler option list \<Rightarrow> handler list" where
  "Set_members entries = List.map_filter (\<lambda>e. e) entries"


definition off :: "string \<Rightarrow> handler \<Rightarrow> EventEmitter \<Rightarrow> EventEmitter" where
  "off event callback em =
     (case map_of (events em) event of
        None \<Rightarrow> em
      | Some r \<Rightarrow> em\<lparr>sets := (sets em)(r := Set_delete callback (sets em r))\<rparr>)"

definition EventEmitter_clear :: "EventEmitter \<Rightarrow> EventEmitter" where
  "EventEmitter_clear em = em\<lparr>events := []\<rparr>"

definition clearEvent :: "string \<Rightarrow> EventEmitter \<Rightarrow> EventEmitter" where
  "clearEvent event em = em\<lparr>events := AList.delete event (events em)\<rparr>"





definition Set_invariant :: "EventEmitter \<Rightarrow> bool" where
  "Set_invariant em = list_all (\<lambda>entry. distinct (Set_members (sets em (snd entry)))) (events em)"




section \<open>A sample page\<close>

text \<open>
  Concrete values on which the properties below are instantiated: a policy at revision 2
  with the three standard categories, a record stamped at revision 1, a platform that
  is defined on the texts and values of this page (its \<open>src\<close> attributes hold absolute
  URLs in normal form, which resolve to themselves), and a document of four elements:
  an analytics script with a source, an inline marketing script, a marked script
  without category whose source no pattern matches, and a paragraph.
\<close>

definition sample_category :: "string \<Rightarrow> CategoryConfig" where
  "sample_category l = \<lparr>enabled = True, readOnly = False, label = l, description = []\<rparr>"

definition sample_config :: ConsentConfig where
  "sample_config =
     \<lparr>autoShow = None, revision = 2,
      config_categories = [(''necessary'', sample_category ''Necessary''),
                           (''analytics'', sample_category ''Analytics''),
                           (''marketing'', sample_category ''Marketing'')],
      showWidget = None, gtmConsentMode = None\<rparr>"

definition sample_record :: ConsentRecord where
  "sample_record =
     \<lparr>version = 1,
      timestamp = ''2024-01-15T09:30:00.000Z'',
      categories = [(''necessary'', True), (''analytics'', True), (''marketing'', False)],
      userAgent = ''Mozilla/5.0'',
      expiresAt = ''2025-02-15T09:30:00.000Z''\<rparr>"

text \<open>A stored value at the current revision whose \<open>categories\<close> is null.\<close>

definition sample_null_record :: js where
  "sample_null_record =
     JObj [(''version'', JNum 2), (''timestamp'', JStr ''2024-01-15T09:30:00.000Z''),
           (''categories'', JNull), (''userAgent'', JStr ''Mozilla/5.0''),
           (''expiresAt'', JStr ''2025-02-15T09:30:00.000Z'')]"

definition sample_platform :: platform where
  "sample_platform =
     \<lparr>JSON_stringify = (\<lambda>v. if v = ConsentRecord_js sample_record then Some ''{sample_record}''
                             else Some ''{}''),
      JSON_parse = (\<lambda>s. if s = ''{sample_record}'' then Some (ConsentRecord_js sample_record)
                         else if s = ''{sample_null_record}'' then Some sample_null_record
                         else if s = ''{}'' then Some (JObj [])
                         else None),
      Date_of_string = (\<lambda>s. if s = ''2025-02-15T09:30:00.000Z''
                             then Some \<lparr>year = 2025, month = 1, date = 15, hours = 9, minutes = 30,
                                        seconds = 0, milliseconds = 0\<rparr>
                             else None),
      navigator_userAgent = ''Mozilla/5.0'',
      inline_id = (\<lambda>n. ''inline-1717236000000-0.'' @ pad 4 n),
      resolve_url = (\<lambda>v. v)\<rparr>"

definition sample_now :: Date where
  "sample_now = \<lparr>year = 2024, month = 5, date = 1, hours = 10, minutes = 0, seconds = 0, milliseconds = 0\<rparr>"

definition sample_storage :: "string option \<Rightarrow> Storage" where
  "sample_storage content =
     \<lparr>items = (\<lambda>k. if k = STORAGE_KEY then content else None), capacity = 4096, accessible = True\<rparr>"

definition sample_heap :: "nat \<Rightarrow> Element" where
  "sample_heap r =
     (if r = 0 then
        \<lparr>tagName = ''script'',
         attributes = [(''src'', ''https://www.google-analytics.com/analytics.js''),
                       (''data-cookieconsent'', ''analytics'')],
         textContent = []\<rparr>
      else if r = 1 then
        \<lparr>tagName = ''script'',
         attributes = [(''type'', ''module''), (''data-cookieconsent'', ''marketing'')],
         textContent = ''fbq(1)''\<rparr>
      else if r = 2 then
        \<lparr>tagName = ''script'',
         attributes = [(''data-cookieconsent'', []), (''src'', ''https://example.org/app.js'')],
         textContent = []\<rparr>
      else \<lparr>tagName = ''p'', attributes = [], textContent = ''text''\<rparr>)"

definition sample_blocker :: ScriptBlocker where
  "sample_blocker = ScriptBlocker_new initializeDefaultPatterns sample_heap [0, 1, 2, 3] 4"

text \<open>A state in which the withheld-set holds the script without category.\<close>

definition sample_orphan :: ScriptBlocker where
  "sample_orphan = sample_blocker\<lparr>blockedScripts := [(''https://example.org/app.js'', 2)]\<rparr>"

text \<open>
  A page that loads one analytics source from two script elements, the second with an
  \<open>async\<close> attribute, followed by a paragraph.
\<close>

definition sample_twin_heap :: "nat \<Rightarrow> Element" where
  "sample_twin_heap r =
     (if r = 0 then
        \<lparr>tagName = ''script'',
         attributes = [(''src'', ''https://www.google-analytics.com/analytics.js''),
                       (''data-cookieconsent'', ''analytics'')],
         textContent = []\<rparr>
      else if r = 1 then
        \<lparr>tagName = ''script'',
         attributes = [(''src'', ''https://www.google-analytics.com/analytics.js''),
                       (''data-cookieconsent'', ''analytics''), (''async'', [])],
         textContent = []\<rparr>
      else \<lparr>tagName = ''p'', attributes = [], textContent = ''text''\<rparr>)"

definition sample_twin_blocker :: ScriptBlocker where
  "sample_twin_blocker = ScriptBlocker_new initializeDefaultPatterns sample_twin_heap [0, 1, 2] 3"







text \<open>
  The decisions \<^verbatim>\<open>{analytics: true, marketing: false, necessary: true}\<close> and
  \<^verbatim>\<open>{analytics: true, marketing: true, necessary: true}\<close>.
\<close>

definition analytics_only :: ConsentCategories where
  "analytics_only = [(''analytics'', True), (''marketing'', False), (''necessary'', True)]"

definition all_granted :: ConsentCategories where
  "all_granted = [(''analytics'', True), (''marketing'', True), (''necessary'', True)]"

text \<open>The page of the twin scripts after \<^verbatim>\<open>init\<close>, and then after \<^verbatim>\<open>unblock\<close> with the first decision.\<close>

definition sample_twin_withheld :: ScriptBlocker where
  "sample_twin_withheld = ScriptBlocker_init sample_platform sample_twin_blocker"

definition sample_twin_released :: ScriptBlocker where
  "sample_twin_released = unblock sample_platform analytics_only sample_twin_withheld"

definition sample_app :: CookieConsent where
  "sample_app =
     CookieConsent_new sample_config (sample_storage (Some ''{sample_record}'')) sample_heap [0, 1, 2, 3] 4"

text \<open>The same page under a configuration with \<open>autoShow\<close> switched off.\<close>

definition sample_quiet_app :: CookieConsent where
  "sample_quiet_app =
     CookieConsent_new (sample_config\<lparr>autoShow := Some False\<rparr>)
       (sample_storage (Some ''{sample_record}'')) sample_heap [0, 1, 2, 3] 4"

text \<open>The same page with the record of null categories in storage.\<close>

definition sample_null_app :: CookieConsent where
  "sample_null_app =
     CookieConsent_new sample_config (sample_storage (Some ''{sample_null_record}'')) sample_heap [0, 1, 2, 3] 4"

section \<open>Properties\<close>

subsection \<open>Consent validation and stamping\<close>

lemma keys_in_config_iff: "keys_in_config cc keys = (\<forall>k \<in> set keys. js_in k cc)"
  by (induction keys) auto

text \<open>
  \<^bold>\<open>Claim C3.\<close>  For every categories mapping in which \<open>necessary\<close> is false or absent,
  \<open>validateConsent\<close> returns false, submitting the decision throws the error of an invalid
  consent, from the manager's \<open>updateConsent\<close> and from the orchestrator's, and the failed
  call leaves the whole state as it was: the manager's record and the stored record are
  unchanged.
\<close>

theorem necessary_missing_rejected_and_not_persisted:
  "map_of cats ''necessary'' \<noteq> Some True \<Longrightarrow>
     validateConsent (consentManager a) cats = False \<and>
     updateConsent p now cats (consentManager a)
       = (Throws (Error ''Invalid consent categories''), consentManager a) \<and>
     CookieConsent_updateConsent p now cats a = (Throws (Error ''Invalid consent categories''), a)"
  by (simp add: validateConsent_def updateConsent_def CookieConsent_updateConsent_def)

theorem necessary_missing_rejected_and_not_persisted_witness:
  "map_of [(''necessary'', False), (''analytics'', True)] ''necessary'' \<noteq> Some True \<and>
   validateConsent (consentManager sample_app) [(''necessary'', False), (''analytics'', True)] = False \<and>
   CookieConsent_updateConsent sample_platform sample_now [(''necessary'', False), (''analytics'', True)] sample_app
     = (Throws (Error ''Invalid consent categories''), sample_app) \<and>
   map_of [(''analytics'', True)] ''necessary'' \<noteq> Some True \<and>
   CookieConsent_updateConsent sample_platform sample_now [(''analytics'', True)] sample_app
     = (Throws (Error ''Invalid consent categories''), sample_app)"
  using necessary_missing_rejected_and_not_persisted
          [of "[(''necessary'', False), (''analytics'', True)]" sample_app sample_platform sample_now]
        necessary_missing_rejected_and_not_persisted
          [of "[(''analytics'', True)]" sample_app sample_platform sample_now]
  by simp

lemma validateConsent_iff:
  "validateConsent m cats =
     (map_of cats ''necessary'' = Some True \<and>
      (\<forall>k \<in> set (map fst cats). js_in k (config_categories (config m))))"
  by (simp add: validateConsent_def keys_in_config_iff)

text \<open>A key that the policy does not have is rejected, unless objects inherit a property of that name.\<close>

lemma foreign_key_rejected:
  "key \<in> set (map fst cats) \<Longrightarrow> key \<notin> set (map fst (config_categories (config m))) \<Longrightarrow>
   key \<notin> set Object_prototype_names \<Longrightarrow> validateConsent m cats = False"
  unfolding validateConsent_iff js_in_def by blast

text \<open>
  \<^bold>\<open>Claim C6.\<close>  Every categories mapping with a key that is not in the policy's category
  set is to be rejected by \<open>validateConsent\<close>.  The test \<^verbatim>\<open>key in this.config.categories\<close>
  also holds for the names that the policy object inherits: with the sample policy
  (necessary, analytics, marketing) a decision that carries the extra key \<open>toString\<close>
  is accepted.
\<close>

theorem inherited_key_passes_validation:
  "''toString'' \<notin> set (map fst (config_categories sample_config)) \<and>
   validateConsent (ConsentManager_new sample_config)
     [(''necessary'', True), (''analytics'', False), (''marketing'', False), (''toString'', True)] = True"
  by (simp add: validateConsent_def ConsentManager_new_def sample_config_def js_in_def
      Object_prototype_names_def)

lemma pad_numeral:
  "pad (numeral k) n = pad (pred_numeral k) (n div 10) @ [''0123456789'' ! (n mod 10)]"
proof -
  have "numeral k = Suc (pred_numeral k)" by (rule numeral_eq_Suc)
  then show ?thesis by (simp only: pad.simps)
qed

text \<open>Up to the 28th of a month the expiry is the same day and time of day, thirteen months on.\<close>

lemma setMonth_same_day:
  "date d \<le> 28 \<Longrightarrow>
   setMonth d (month d + 13)
     = d\<lparr>year := year d + int ((month d + 13) div 12), month := (month d + 13) mod 12\<rparr>"
  by (simp add: setMonth_def daysInMonth_def Let_def)

text \<open>The expiry is the same day and time of day thirteen months on exactly when the month it falls in has that day.\<close>

lemma setMonth_thirteen_iff:
  "setMonth d (month d + 13)
     = d\<lparr>year := year d + int ((month d + 13) div 12), month := (month d + 13) mod 12\<rparr>
   \<longleftrightarrow> date d \<le> daysInMonth (year d + int ((month d + 13) div 12)) ((month d + 13) mod 12)"
proof -
  let ?y = "year d + int ((month d + 13) div 12)" and ?m = "(month d + 13) mod 12"
  have pos: "0 < daysInMonth ?y ?m" by (simp add: daysInMonth_def)
  show ?thesis
  proof (cases "date d \<le> daysInMonth ?y ?m")
    case True
    then show ?thesis by (simp add: setMonth_def Let_def)
  next
    case False
    then have "date (setMonth d (month d + 13)) = date d - daysInMonth ?y ?m"
      by (simp add: setMonth_def Let_def)
    moreover have "date (d\<lparr>year := ?y, month := ?m\<rparr>) = date d"
      by simp
    ultimately have "date (setMonth d (month d + 13)) \<noteq> date (d\<lparr>year := ?y, month := ?m\<rparr>)"
      using False pos by arith
    then have "setMonth d (month d + 13) \<noteq> d\<lparr>year := ?y, month := ?m\<rparr>"
      by metis
    with False show ?thesis by simp
  qed
qed

text \<open>
  \<^bold>\<open>Claim C4.\<close>  The record made by \<open>createConsentRecord\<close> is to expire exactly 13 months
  after its timestamp, for every input.  A decision taken on 31 January 2024 at noon is
  stamped to expire on 3 March 2025 at noon: February 2025 has no 31st day and
  \<^verbatim>\<open>setMonth\<close> runs over into March, 13 months and 3 days after the timestamp.
\<close>

theorem expiry_overflows_at_month_end:
  "createConsentRecord sample_platform
     \<lparr>year = 2024, month = 0, date = 31, hours = 12, minutes = 0, seconds = 0, milliseconds = 0\<rparr>
     (ConsentManager_new sample_config) [(''necessary'', True)]
   = \<lparr>version = 2, timestamp = ''2024-01-31T12:00:00.000Z'', categories = [(''necessary'', True)],
       userAgent = ''Mozilla/5.0'', expiresAt = ''2025-03-03T12:00:00.000Z''\<rparr>"
  by (simp add: createConsentRecord_def setMonth_def daysInMonth_def leap_year_def toISOString_def
      Let_def pad_numeral ConsentManager_new_def sample_config_def sample_platform_def)

subsection \<open>The record store\<close>

lemma validateSchema_ConsentRecord_js: "validateSchema (ConsentRecord_js r)"
  by (simp add: validateSchema_def ConsentRecord_js_def ConsentCategories_js_def)

lemma ConsentRecord_of_js_inverse: "ConsentRecord_of_js (ConsentRecord_js r) = r"
  by (simp add: ConsentRecord_of_js_def ConsentRecord_js_def ConsentCategories_js_def
      ConsentCategories_of_js_def comp_def case_prod_beta)

lemma typeof_number: "typeof x = ''number'' \<Longrightarrow> \<exists>n. x = JNum n"
  by (cases x) simp_all

lemma typeof_string: "typeof x = ''string'' \<Longrightarrow> \<exists>s. x = JStr s"
  by (cases x) simp_all

text \<open>A value that passed \<open>validateSchema\<close> has the number and the strings that its typed reading reads.\<close>

lemma validateSchema_fields:
  assumes "validateSchema v"
  shows "js_get v ''version'' = JNum (version (ConsentRecord_of_js v)) \<and>
         js_get v ''timestamp'' = JStr (timestamp (ConsentRecord_of_js v)) \<and>
         js_get v ''userAgent'' = JStr (userAgent (ConsentRecord_of_js v)) \<and>
         js_get v ''expiresAt'' = JStr (expiresAt (ConsentRecord_of_js v))"
proof -
  from assms obtain n t u e where
    "js_get v ''version'' = JNum n" "js_get v ''timestamp'' = JStr t"
    "js_get v ''userAgent'' = JStr u" "js_get v ''expiresAt'' = JStr e"
    unfolding validateSchema_def by (meson typeof_number typeof_string)
  then show ?thesis by (simp add: ConsentRecord_of_js_def)
qed

text \<open>
  \<^bold>\<open>Claim C7.\<close>  For every consent record \<open>r\<close>: when the storage can be written and read
  (it is accessible and the text fits), and the platform's JSON functions serialise the
  record's object to a text from which they give the object back, \<open>load\<close> after
  \<open>save r\<close> returns an object equal to the record's, whose typed reading is \<open>r\<close>.
\<close>

theorem load_after_save_roundtrip:
  assumes "accessible (localStorage w)"
    and "JSON_stringify p (ConsentRecord_js r) = Some text"
    and "text \<noteq> []"
    and "length text \<le> capacity (localStorage w)"
    and "JSON_parse p text = Some (ConsentRecord_js r)"
  shows "fst (load p (snd (save p r w))) = Returns (Some (ConsentRecord_js r)) \<and>
         ConsentRecord_of_js (ConsentRecord_js r) = r"
  using assms
  by (simp add: save_def save_body_def setItem_def try_catch_def load_def load_body_def getItem_def
      validateSchema_ConsentRecord_js ConsentRecord_of_js_inverse)

theorem load_after_save_roundtrip_witness:
  "accessible (sample_storage None) \<and>
   JSON_stringify sample_platform (ConsentRecord_js sample_record) = Some ''{sample_record}'' \<and>
   ''{sample_record}'' \<noteq> [] \<and>
   length ''{sample_record}'' \<le> capacity (sample_storage None) \<and>
   JSON_parse sample_platform ''{sample_record}'' = Some (ConsentRecord_js sample_record) \<and>
   fst (load sample_platform
          (snd (save sample_platform sample_record
                  \<lparr>localStorage = sample_storage None, console = []\<rparr>)))
     = Returns (Some (ConsentRecord_js sample_record))"
  using load_after_save_roundtrip
          [of "\<lparr>localStorage = sample_storage None, console = []\<rparr>" sample_platform sample_record
              "''{sample_record}''"]
  by (simp add: sample_storage_def sample_platform_def)

lemma save_Returns: "\<exists>w'. save p r w = (Returns (), w')"
  by (auto simp: save_def try_catch_def split: prod.splits outcome.splits)

lemma load_Returns: "\<exists>x w'. load p w = (Returns x, w')"
  by (auto simp: load_def try_catch_def split: prod.splits outcome.splits)

text \<open>
  \<^bold>\<open>Claim C8.\<close>  \<open>save\<close> and \<open>load\<close> always return: no exception of the storage, of the
  serialisation or of the stored data reaches the caller.  \<open>save\<close> swallows a failed
  serialisation and a failed write (storage denied, or the text over the quota) and
  leaves the storage as it was.  \<open>load\<close> returns null when the storage is denied, when
  nothing is stored, when the stored text does not parse, and when the parsed value fails
  \<open>validateSchema\<close> (\<open>migrate\<close> migrates nothing).
\<close>

theorem save_load_never_throw:
  "fst (save p r w) = Returns () \<and>
   (\<exists>x. fst (load p w) = Returns x) \<and>
   (JSON_stringify p (ConsentRecord_js r) = None \<longrightarrow>
      localStorage (snd (save p r w)) = localStorage w) \<and>
   (\<not> accessible (localStorage w) \<longrightarrow> localStorage (snd (save p r w)) = localStorage w) \<and>
   (\<forall>text. JSON_stringify p (ConsentRecord_js r) = Some text \<and> capacity (localStorage w) < length text
      \<longrightarrow> localStorage (snd (save p r w)) = localStorage w) \<and>
   (\<not> accessible (localStorage w) \<longrightarrow> fst (load p w) = Returns None) \<and>
   (items (localStorage w) STORAGE_KEY = None \<longrightarrow> fst (load p w) = Returns None) \<and>
   (\<forall>data. items (localStorage w) STORAGE_KEY = Some data \<and> JSON_parse p data = None
      \<longrightarrow> fst (load p w) = Returns None) \<and>
   (\<forall>data v. items (localStorage w) STORAGE_KEY = Some data \<and> JSON_parse p data = Some v \<and>
        \<not> validateSchema v
      \<longrightarrow> fst (load p w) = Returns None)"
  by (auto simp: save_def save_body_def setItem_def try_catch_def load_def load_body_def getItem_def
        migrate_def console_print_def split: prod.splits outcome.splits option.splits)

theorem save_load_never_throw_witness:
  "\<not> accessible (localStorage \<lparr>localStorage = (sample_storage None)\<lparr>accessible := False\<rparr>, console = []\<rparr>) \<and>
   fst (save sample_platform sample_record
          \<lparr>localStorage = (sample_storage None)\<lparr>accessible := False\<rparr>, console = []\<rparr>) = Returns () \<and>
   localStorage (snd (save sample_platform sample_record
          \<lparr>localStorage = (sample_storage None)\<lparr>accessible := False\<rparr>, console = []\<rparr>))
     = (sample_storage None)\<lparr>accessible := False\<rparr> \<and>
   fst (load sample_platform
          \<lparr>localStorage = (sample_storage None)\<lparr>accessible := False\<rparr>, console = []\<rparr>) = Returns None \<and>
   JSON_stringify (sample_platform\<lparr>JSON_stringify := \<lambda>v. None\<rparr>) (ConsentRecord_js sample_record) = None \<and>
   fst (save (sample_platform\<lparr>JSON_stringify := \<lambda>v. None\<rparr>) sample_record
          \<lparr>localStorage = sample_storage None, console = []\<rparr>) = Returns () \<and>
   localStorage (snd (save (sample_platform\<lparr>JSON_stringify := \<lambda>v. None\<rparr>) sample_record
          \<lparr>localStorage = sample_storage None, console = []\<rparr>))
     = sample_storage None \<and>
   JSON_stringify sample_platform (ConsentRecord_js sample_record) = Some ''{sample_record}'' \<and>
   capacity ((sample_storage None)\<lparr>capacity := 4\<rparr>) < length ''{sample_record}'' \<and>
   localStorage (snd (save sample_platform sample_record
          \<lparr>localStorage = (sample_storage None)\<lparr>capacity := 4\<rparr>, console = []\<rparr>))
     = (sample_storage None)\<lparr>capacity := 4\<rparr> \<and>
   items (sample_storage None) STORAGE_KEY = None \<and>
   fst (load sample_platform \<lparr>localStorage = sample_storage None, console = []\<rparr>) = Returns None \<and>
   items (sample_storage (Some ''not json'')) STORAGE_KEY = Some ''not json'' \<and>
   JSON_parse sample_platform ''not json'' = None \<and>
   fst (load sample_platform \<lparr>localStorage = sample_storage (Some ''not json''), console = []\<rparr>)
     = Returns None \<and>
   items (sample_storage (Some ''{}'')) STORAGE_KEY = Some ''{}'' \<and>
   JSON_parse sample_platform ''{}'' = Some (JObj []) \<and>
   \<not> validateSchema (JObj []) \<and>
   fst (load sample_platform \<lparr>localStorage = sample_storage (Some ''{}''), console = []\<rparr>)
     = Returns None"
proof -
  let ?denied = "\<lparr>localStorage = (sample_storage None)\<lparr>accessible := False\<rparr>, console = []\<rparr>"
  let ?full = "\<lparr>localStorage = (sample_storage None)\<lparr>capacity := 4\<rparr>, console = []\<rparr>"
  let ?empty = "\<lparr>localStorage = sample_storage None, console = []\<rparr>"
  let ?broken = "\<lparr>localStorage = sample_storage (Some ''not json''), console = []\<rparr>"
  let ?shape = "\<lparr>localStorage = sample_storage (Some ''{}''), console = []\<rparr>"
  let ?mute = "sample_platform\<lparr>JSON_stringify := \<lambda>v. None\<rparr>"
  have denied: "\<not> accessible (localStorage ?denied)"
    by (simp add: sample_storage_def)
  have mute: "JSON_stringify ?mute (ConsentRecord_js sample_record) = None"
    by simp
  have full: "JSON_stringify sample_platform (ConsentRecord_js sample_record) = Some ''{sample_record}''"
      "capacity (localStorage ?full) < length ''{sample_record}''"
    by (simp_all add: sample_storage_def sample_platform_def)
  have empty: "items (localStorage ?empty) STORAGE_KEY = None"
    by (simp add: sample_storage_def)
  have broken: "items (localStorage ?broken) STORAGE_KEY = Some ''not json''"
      "JSON_parse sample_platform ''not json'' = None"
    by (simp_all add: sample_storage_def sample_platform_def)
  have shape: "items (localStorage ?shape) STORAGE_KEY = Some ''{}''"
      "JSON_parse sample_platform ''{}'' = Some (JObj [])" "\<not> validateSchema (JObj [])"
    by (simp_all add: sample_storage_def sample_platform_def validateSchema_def)
  note inst = save_load_never_throw [of _ sample_record]
  from inst [of sample_platform ?denied] denied
  have 1: "fst (save sample_platform sample_record ?denied) = Returns ()"
      "localStorage (snd (save sample_platform sample_record ?denied)) = localStorage ?denied"
      "fst (load sample_platform ?denied) = Returns None"
    by blast+
  from inst [of ?mute ?empty] mute
  have 2: "fst (save ?mute sample_record ?empty) = Returns ()"
      "localStorage (snd (save ?mute sample_record ?empty)) = localStorage ?empty"
    by blast+
  from inst [of sample_platform ?full] full
  have 3: "localStorage (snd (save sample_platform sample_record ?full)) = localStorage ?full"
    by blast
  from inst [of sample_platform ?empty] empty
  have 4: "fst (load sample_platform ?empty) = Returns None"
    by blast
  from inst [of sample_platform ?broken] broken
  have 5: "fst (load sample_platform ?broken) = Returns None"
    by blast
  from inst [of sample_platform ?shape] shape
  have 6: "fst (load sample_platform ?shape) = Returns None"
    by blast
  from denied mute full empty broken shape 1 2 3 4 5 6 show ?thesis
    by simp
qed

subsection \<open>The script blocker: withholding\<close>

lemma map_of_update_other: "k' \<noteq> k \<Longrightarrow> map_of (AList.update k v al) k' = map_of al k'"
  by (simp add: update_conv')

lemma getAttribute_setAttribute:
  "getAttribute (setAttribute name val el) name' = (if name' = name then Some val else getAttribute el name')"
  by (simp add: getAttribute_def setAttribute_def update_conv')

lemma tagName_setAttribute [simp]: "tagName (setAttribute name val el) = tagName el"
  by (simp add: setAttribute_def)

lemma textContent_setAttribute [simp]: "textContent (setAttribute name val el) = textContent el"
  by (simp add: setAttribute_def)

text \<open>The element that processScript leaves behind when it withholds.\<close>

lemma processScript_unfold:
  "processScript p r b =
     (if withholds p b r then
        (snd (generateScriptId p (heap b r) b))
          \<lparr>heap := (heap b)(r := setAttribute ''type'' ''text/plain''
                       (setAttribute ''data-original-type''
                          (if type_prop (heap b r) \<noteq> [] then type_prop (heap b r) else ''text/javascript'')
                          (heap b r))),
           blockedScripts := AList.update (fst (generateScriptId p (heap b r) b)) r (blockedScripts b)\<rparr>
      else b)"
  by (auto simp: processScript_def withholds_def generateScriptId_def Let_def split: option.splits)

lemma processScript_skip: "\<not> withholds p b r \<Longrightarrow> processScript p r b = b"
  by (simp add: processScript_unfold)

lemma processScript_frame [simp]:
  "categoryManager (processScript p r b) = categoryManager b"
  "currentConsent (processScript p r b) = currentConsent b"
  "document (processScript p r b) = document b"
  "next_ref (processScript p r b) = next_ref b"
  "observer (processScript p r b) = observer b"
  "emitted (processScript p r b) = emitted b"
  by (simp_all add: processScript_unfold generateScriptId_def)

lemma processScript_heap_other: "x \<noteq> r \<Longrightarrow> heap (processScript p r b) x = heap b x"
  by (simp add: processScript_unfold generateScriptId_def)

lemma category_after_withholding:
  "getCategoryForScript p cm (setAttribute ''type'' t (setAttribute ''data-original-type'' t' el))
     = getCategoryForScript p cm el"
  by (simp add: getCategoryForScript_def src_prop_def getAttribute_setAttribute)

lemma type_after_withholding:
  "type_prop (setAttribute ''type'' t el) = t"
  by (simp add: type_prop_def getAttribute_setAttribute)

lemma not_withholds_after: "\<not> withholds p (processScript p r b) r"
  by (auto simp: processScript_unfold withholds_def generateScriptId_def category_after_withholding
      type_after_withholding split: option.splits)

lemma withholds_other: "x \<noteq> r \<Longrightarrow> withholds p (processScript p r b) x = withholds p b x"
  by (simp add: withholds_def processScript_heap_other cong: option.case_cong)

lemma not_withholds_preserved: "\<not> withholds p b x \<Longrightarrow> \<not> withholds p (processScript p r b) x"
  by (cases "x = r") (simp_all add: not_withholds_after withholds_other)

lemma processScript_idem: "processScript p r (processScript p r b) = processScript p r b"
  by (rule processScript_skip) (rule not_withholds_after)


lemma fold_processScript_skip:
  "\<forall>x \<in> set rs. \<not> withholds p b x \<Longrightarrow> fold (processScript p) rs b = b"
  by (induction rs) (simp_all add: processScript_skip)

lemma not_withholds_fold:
  "\<not> withholds p b x \<Longrightarrow> \<not> withholds p (fold (processScript p) rs b) x"
  by (induction rs arbitrary: b) (simp_all add: not_withholds_preserved)

lemma fold_processScript_done:
  "\<forall>x \<in> set rs. \<not> withholds p (fold (processScript p) rs b) x"
proof (induction rs arbitrary: b)
  case Nil
  show ?case by simp
next
  case (Cons r rs)
  have "\<not> withholds p (fold (processScript p) rs (processScript p r b)) r"
    by (rule not_withholds_fold) (rule not_withholds_after)
  with Cons.IH [of "processScript p r b"] show ?case by simp
qed

lemma fold_processScript_frame [simp]:
  "categoryManager (fold (processScript p) rs b) = categoryManager b"
  "currentConsent (fold (processScript p) rs b) = currentConsent b"
  "document (fold (processScript p) rs b) = document b"
  "next_ref (fold (processScript p) rs b) = next_ref b"
  "observer (fold (processScript p) rs b) = observer b"
  "emitted (fold (processScript p) rs b) = emitted b"
  by (induction rs arbitrary: b) simp_all

lemma is_marked_script_processScript:
  "is_marked_script (processScript p r b) x = is_marked_script b x"
  by (cases "x = r")
     (auto simp: is_marked_script_def processScript_unfold generateScriptId_def hasAttribute_def
        setAttribute_def update_conv')

lemma is_marked_script_fold:
  "is_marked_script (fold (processScript p) rs b) x = is_marked_script b x"
  by (induction rs arbitrary: b) (simp_all add: is_marked_script_processScript)

lemma querySelectorAll_blockExistingScripts:
  "querySelectorAll_scripts (blockExistingScripts p b) = querySelectorAll_scripts b"
  by (simp add: querySelectorAll_scripts_def blockExistingScripts_def is_marked_script_fold cong: filter_cong)

lemma blockExistingScripts_idem:
  "blockExistingScripts p (blockExistingScripts p b) = blockExistingScripts p b"
proof -
  have "fold (processScript p) (querySelectorAll_scripts b) (blockExistingScripts p b)
          = blockExistingScripts p b"
    unfolding blockExistingScripts_def
    by (rule fold_processScript_skip) (rule fold_processScript_done)
  then show ?thesis
    using querySelectorAll_blockExistingScripts [of p b]
    by (simp add: blockExistingScripts_def [of p "blockExistingScripts p b"])
qed

lemma block_idem: "block p (block p b) = block p b"
proof -
  have "currentConsent (block p b) = None"
    by (simp add: block_def blockExistingScripts_def)
  then have "(block p b)\<lparr>currentConsent := None\<rparr> = block p b"
    by simp
  then show ?thesis
    by (simp add: block_def [of p "block p b"]) (simp add: block_def blockExistingScripts_idem)
qed

text \<open>The side attribute.\<close>

lemma original_type_processScript:
  "getAttribute (heap (processScript p r b) x) ''data-original-type'' =
     (if x = r \<and> withholds p b r
      then Some (if type_prop (heap b r) \<noteq> [] then type_prop (heap b r) else ''text/javascript'')
      else getAttribute (heap b x) ''data-original-type'')"
  by (simp add: processScript_unfold generateScriptId_def getAttribute_setAttribute)

lemma original_type_never_withheld_type:
  assumes "getAttribute (heap b x) ''data-original-type'' \<noteq> Some ''text/plain''"
  shows "getAttribute (heap (processScript p r b) x) ''data-original-type'' \<noteq> Some ''text/plain''"
  using assms by (auto simp: original_type_processScript withholds_def split: option.splits)

lemma original_type_fold:
  assumes "getAttribute (heap b x) ''data-original-type'' \<noteq> Some ''text/plain''"
  shows "getAttribute (heap (fold (processScript p) rs b) x) ''data-original-type'' \<noteq> Some ''text/plain''"
  using assms by (induction rs arbitrary: b) (simp_all add: original_type_never_withheld_type)

subsection \<open>The script blocker: releasing\<close>

lemma reactivateScript_frame [simp]:
  "categoryManager (reactivateScript p r b) = categoryManager b"
  "currentConsent (reactivateScript p r b) = currentConsent b"
  "blockedScripts (reactivateScript p r b) = blockedScripts b"
  "observer (reactivateScript p r b) = observer b"
  "ids_generated (reactivateScript p r b) = ids_generated b"
  "next_ref (reactivateScript p r b) = Suc (next_ref b)"
  "emitted (reactivateScript p r b) = emitted b @ [(''script:activated'', activated_payload p (heap b r))]"
  "heap (reactivateScript p r b) = (heap b)(next_ref b := newScript_element p (heap b r))"
  "document (reactivateScript p r b) =
     (if r \<in> set (document b) then removeChild r (insertBefore (next_ref b) r (document b))
      else document b)"
  by (simp_all add: reactivateScript_def emit_event_def Let_def)

lemma unblock_entry_unfold:
  "unblock_entry p cats (sid, r) b =
     (if releasable p cats b r
      then (reactivateScript p r b)\<lparr>blockedScripts := AList.delete sid (blockedScripts b)\<rparr>
      else b)"
  by (simp add: unblock_entry_def releasable_def Let_def split: option.splits)

lemma unblock_entry_frame [simp]:
  "categoryManager (unblock_entry p cats e b) = categoryManager b"
  "currentConsent (unblock_entry p cats e b) = currentConsent b"
  "observer (unblock_entry p cats e b) = observer b"
  "ids_generated (unblock_entry p cats e b) = ids_generated b"
  by (cases e; simp add: unblock_entry_unfold)+

lemma unblock_entry_next_ref: "next_ref b \<le> next_ref (unblock_entry p cats e b)"
  by (cases e) (simp add: unblock_entry_unfold)

lemma unblock_entry_heap: "x < next_ref b \<Longrightarrow> heap (unblock_entry p cats e b) x = heap b x"
  by (cases e) (simp add: unblock_entry_unfold)

lemma releasable_unblock_entry:
  "x < next_ref b \<Longrightarrow> releasable p cats' (unblock_entry p cats e b) x = releasable p cats' b x"
  by (simp add: releasable_def unblock_entry_heap)

lemma fold_unblock_frame [simp]:
  "categoryManager (fold (unblock_entry p cats) es b) = categoryManager b"
  "currentConsent (fold (unblock_entry p cats) es b) = currentConsent b"
  "observer (fold (unblock_entry p cats) es b) = observer b"
  "ids_generated (fold (unblock_entry p cats) es b) = ids_generated b"
  by (induction es arbitrary: b) simp_all

lemma fold_unblock_next_ref: "next_ref b \<le> next_ref (fold (unblock_entry p cats) es b)"
proof (induction es arbitrary: b)
  case Nil
  show ?case by simp
next
  case (Cons e es)
  from unblock_entry_next_ref [of b p cats e] Cons.IH [of "unblock_entry p cats e b"]
  show ?case by simp
qed

lemma fold_unblock_heap:
  "x < next_ref b \<Longrightarrow> heap (fold (unblock_entry p cats) es b) x = heap b x"
proof (induction es arbitrary: b)
  case Nil
  show ?case by simp
next
  case (Cons e es)
  from Cons.prems unblock_entry_next_ref [of b p cats e]
  have "x < next_ref (unblock_entry p cats e b)" by simp
  from Cons.IH [OF this] Cons.prems show ?case
    by (simp add: unblock_entry_heap)
qed

lemma fold_unblock_skip:
  "\<forall>e \<in> set es. \<not> releasable p cats b (snd e) \<Longrightarrow> fold (unblock_entry p cats) es b = b"
  by (induction es) (auto simp: unblock_entry_unfold)

lemma releasable_filter_cong:
  assumes "\<forall>e \<in> set es. snd e < next_ref b"
  shows "filter (\<lambda>e. releasable p cats (unblock_entry p cats e0 b) (snd e)) es
           = filter (\<lambda>e. releasable p cats b (snd e)) es"
  using assms by (intro filter_cong) (simp_all add: releasable_unblock_entry)

lemma fold_unblock_blockedScripts:
  assumes "\<forall>e \<in> set es. snd e < next_ref b"
  shows "blockedScripts (fold (unblock_entry p cats) es b)
           = filter (\<lambda>e. fst e \<notin> fst ` set (filter (\<lambda>e. releasable p cats b (snd e)) es))
               (blockedScripts b)"
  using assms
proof (induction es arbitrary: b)
  case Nil
  show ?case by simp
next
  case (Cons e es)
  obtain sid r where e: "e = (sid, r)" by (cases e)
  let ?b' = "unblock_entry p cats e b"
  have bound: "\<forall>e \<in> set es. snd e < next_ref ?b'"
    using Cons.prems unblock_entry_next_ref [of b p cats e] by fastforce
  have rel: "filter (\<lambda>e. releasable p cats ?b' (snd e)) es = filter (\<lambda>e. releasable p cats b (snd e)) es"
    using Cons.prems by (intro releasable_filter_cong) simp
  have "blockedScripts (fold (unblock_entry p cats) (e # es) b)
          = filter (\<lambda>e. fst e \<notin> fst ` set (filter (\<lambda>e. releasable p cats b (snd e)) es))
              (blockedScripts ?b')"
    using Cons.IH [OF bound] rel by simp
  also have "\<dots> = filter (\<lambda>e'. fst e' \<notin> fst ` set (filter (\<lambda>e. releasable p cats b (snd e)) (e # es)))
                     (blockedScripts b)"
    by (auto simp: e unblock_entry_unfold AList.delete_eq intro!: filter_cong)
  finally show ?case .
qed

lemma fold_unblock_emitted:
  assumes "\<forall>e \<in> set es. snd e < next_ref b"
  shows "emitted (fold (unblock_entry p cats) es b)
           = emitted b @ map (\<lambda>e. (''script:activated'', activated_payload p (heap b (snd e))))
                           (filter (\<lambda>e. releasable p cats b (snd e)) es)"
  using assms
proof (induction es arbitrary: b)
  case Nil
  show ?case by simp
next
  case (Cons e es)
  obtain sid r where e: "e = (sid, r)" by (cases e)
  let ?b' = "unblock_entry p cats e b"
  have bound: "\<forall>e \<in> set es. snd e < next_ref ?b'"
    using Cons.prems unblock_entry_next_ref [of b p cats e] by fastforce
  have rel: "filter (\<lambda>e. releasable p cats ?b' (snd e)) es = filter (\<lambda>e. releasable p cats b (snd e)) es"
    using Cons.prems by (intro releasable_filter_cong) simp
  have hp: "map (\<lambda>e. (''script:activated'', activated_payload p (heap ?b' (snd e)))) (filter (\<lambda>e. releasable p cats b (snd e)) es)
          = map (\<lambda>e. (''script:activated'', activated_payload p (heap b (snd e)))) (filter (\<lambda>e. releasable p cats b (snd e)) es)"
    using Cons.prems by (intro map_cong) (auto simp: unblock_entry_heap)
  have step: "emitted ?b' = emitted b @ map (\<lambda>e. (''script:activated'', activated_payload p (heap b (snd e))))
                                          (filter (\<lambda>e. releasable p cats b (snd e)) [e])"
    by (simp add: e unblock_entry_unfold)
  have "emitted (fold (unblock_entry p cats) (e # es) b)
          = emitted ?b' @ map (\<lambda>e. (''script:activated'', activated_payload p (heap ?b' (snd e))))
                           (filter (\<lambda>e. releasable p cats ?b' (snd e)) es)"
    using Cons.IH [OF bound] by simp
  also have "\<dots> = emitted ?b' @ map (\<lambda>e. (''script:activated'', activated_payload p (heap b (snd e))))
                           (filter (\<lambda>e. releasable p cats b (snd e)) es)"
    by (simp only: rel hp)
  also have "\<dots> = emitted b @ map (\<lambda>e. (''script:activated'', activated_payload p (heap b (snd e))))
                           (filter (\<lambda>e. releasable p cats b (snd e)) (e # es))"
    by (simp only: step) simp
  finally show ?case .
qed

lemma set_insertBefore: "r \<in> set doc \<Longrightarrow> set (insertBefore n r doc) = insert n (set doc)"
  by (induction doc) auto

lemma insertBefore_absent: "r \<notin> set doc \<Longrightarrow> insertBefore n r doc = doc"
  by (induction doc) auto

lemma distinct_insertBefore: "distinct doc \<Longrightarrow> n \<notin> set doc \<Longrightarrow> distinct (insertBefore n r doc)"
proof (induction doc)
  case Nil
  show ?case by simp
next
  case (Cons x doc)
  then show ?case
    by (cases "r \<in> set doc") (auto simp: set_insertBefore insertBefore_absent)
qed

text \<open>The document after one reactivation.\<close>

lemma set_document_reactivateScript:
  assumes "distinct (document b)" and "next_ref b \<notin> set (document b)"
  shows "set (document (reactivateScript p r b)) =
           (if r \<in> set (document b) then insert (next_ref b) (set (document b) - {r})
            else set (document b))"
proof (cases "r \<in> set (document b)")
  case True
  have d: "distinct (insertBefore (next_ref b) r (document b))"
    using assms by (rule distinct_insertBefore)
  have "r \<noteq> next_ref b" using True assms(2) by auto
  with True d show ?thesis
    by (auto simp: removeChild_def set_insertBefore)
next
  case False
  then show ?thesis by simp
qed

lemma doc_inv_reactivateScript: "doc_inv b \<Longrightarrow> doc_inv (reactivateScript p r b)"
proof -
  assume inv: "doc_inv b"
  then have fresh: "next_ref b \<notin> set (document b)" and d: "distinct (document b)"
    by (auto simp: doc_inv_def)
  have "distinct (document (reactivateScript p r b))"
    using d fresh by (simp add: removeChild_def distinct_insertBefore)
  moreover have "\<forall>x \<in> set (document (reactivateScript p r b)). x < next_ref (reactivateScript p r b)"
    using inv set_document_reactivateScript [OF d fresh, of p r]
    by (auto simp: doc_inv_def less_Suc_eq simp del: reactivateScript_frame(9) split: if_splits)
  ultimately show ?thesis by (simp add: doc_inv_def)
qed

lemma doc_inv_unblock_entry: "doc_inv b \<Longrightarrow> doc_inv (unblock_entry p cats e b)"
proof (cases e)
  case (Pair sid r)
  assume "doc_inv b"
  then have "doc_inv (reactivateScript p r b)" by (rule doc_inv_reactivateScript)
  then have "doc_inv ((reactivateScript p r b)\<lparr>blockedScripts := AList.delete sid (blockedScripts b)\<rparr>)"
    by (simp add: doc_inv_def)
  with \<open>doc_inv b\<close> show ?thesis
    by (simp add: Pair unblock_entry_unfold)
qed

lemma doc_inv_fold: "doc_inv b \<Longrightarrow> doc_inv (fold (unblock_entry p cats) es b)"
  by (induction es arbitrary: b) (simp_all add: doc_inv_unblock_entry)

lemma set_document_unblock_entry:
  assumes "doc_inv b"
  shows "set (document (unblock_entry p cats (sid, r) b)) =
           (if releasable p cats b r \<and> r \<in> set (document b)
            then insert (next_ref b) (set (document b) - {r})
            else set (document b))"
proof -
  from assms have fresh: "next_ref b \<notin> set (document b)" and d: "distinct (document b)"
    by (auto simp: doc_inv_def)
  show ?thesis
    using set_document_reactivateScript [OF d fresh, of p r]
    by (simp add: unblock_entry_unfold del: reactivateScript_frame(9))
qed

lemma absent_stays_absent:
  assumes "doc_inv b" and "x < next_ref b" and "x \<notin> set (document b)"
  shows "x \<notin> set (document (fold (unblock_entry p cats) es b))"
  using assms
proof (induction es arbitrary: b)
  case Nil
  then show ?case by simp
next
  case (Cons e es)
  obtain sid r where e: "e = (sid, r)" by (cases e)
  let ?b' = "unblock_entry p cats e b"
  have "doc_inv ?b'" using Cons.prems(1) by (rule doc_inv_unblock_entry)
  moreover have "x < next_ref ?b'"
    using Cons.prems(2) unblock_entry_next_ref [of b p cats e] by simp
  moreover have "x \<notin> set (document ?b')"
    using Cons.prems by (auto simp: e set_document_unblock_entry)
  ultimately show ?case using Cons.IH [of ?b'] by simp
qed

lemma unlisted_stays_attached:
  assumes "doc_inv b" and "x \<in> set (document b)" and "x \<notin> snd ` set es"
  shows "x \<in> set (document (fold (unblock_entry p cats) es b))"
  using assms
proof (induction es arbitrary: b)
  case Nil
  then show ?case by simp
next
  case (Cons e es)
  obtain sid r where e: "e = (sid, r)" by (cases e)
  let ?b' = "unblock_entry p cats e b"
  have "doc_inv ?b'" using Cons.prems(1) by (rule doc_inv_unblock_entry)
  moreover have "x \<in> set (document ?b')"
    using Cons.prems by (auto simp: e set_document_unblock_entry)
  moreover have "x \<notin> snd ` set es" using Cons.prems(3) by auto
  ultimately show ?case using Cons.IH [of ?b'] by simp
qed

lemma withheld_stays_attached:
  assumes "doc_inv b" and "x \<in> set (document b)" and "\<not> releasable p cats b x"
  shows "x \<in> set (document (fold (unblock_entry p cats) es b))"
  using assms
proof (induction es arbitrary: b)
  case Nil
  then show ?case by simp
next
  case (Cons e es)
  obtain sid r where e: "e = (sid, r)" by (cases e)
  let ?b' = "unblock_entry p cats e b"
  have lt: "x < next_ref b" using Cons.prems(1,2) by (simp add: doc_inv_def)
  have "doc_inv ?b'" using Cons.prems(1) by (rule doc_inv_unblock_entry)
  moreover have "x \<in> set (document ?b')"
    using Cons.prems by (auto simp: e set_document_unblock_entry)
  moreover have "\<not> releasable p cats ?b' x"
    using Cons.prems(3) lt by (simp add: releasable_unblock_entry)
  ultimately show ?case using Cons.IH [of ?b'] by simp
qed

lemma released_is_detached:
  assumes "doc_inv b" and "\<forall>e \<in> set es. snd e < next_ref b"
    and "(sid, r) \<in> set es" and "releasable p cats b r"
  shows "r \<notin> set (document (fold (unblock_entry p cats) es b))"
  using assms
proof (induction es arbitrary: b)
  case Nil
  then show ?case by simp
next
  case (Cons e es)
  obtain sid' r' where e: "e = (sid', r')" by (cases e)
  let ?b' = "unblock_entry p cats e b"
  have inv': "doc_inv ?b'" using Cons.prems(1) by (rule doc_inv_unblock_entry)
  have bound': "\<forall>e \<in> set es. snd e < next_ref ?b'"
    using Cons.prems(2) unblock_entry_next_ref [of b p cats e] by fastforce
  have r_lt: "r < next_ref b" using Cons.prems(2,3) by fastforce
  then have r_lt': "r < next_ref ?b'" using unblock_entry_next_ref [of b p cats e] by simp
  show ?case
  proof (cases "r' = r")
    case True
    have "r \<notin> set (document ?b')"
      using Cons.prems(1,4) r_lt by (auto simp: e True set_document_unblock_entry doc_inv_def)
    from absent_stays_absent [OF inv' r_lt' this] show ?thesis by simp
  next
    case False
    then have "(sid, r) \<in> set es" using Cons.prems(3) e by auto
    moreover have "releasable p cats ?b' r"
      using Cons.prems(4) r_lt by (simp add: releasable_unblock_entry)
    ultimately show ?thesis using Cons.IH [OF inv' bound'] by simp
  qed
qed

lemma released_is_replaced:
  assumes "doc_inv b" and "\<forall>e \<in> set es. snd e < next_ref b"
    and "(sid, r) \<in> set es" and "releasable p cats b r" and "r \<in> set (document b)"
  shows "\<exists>n \<in> set (document (fold (unblock_entry p cats) es b)).
           next_ref b \<le> n \<and> heap (fold (unblock_entry p cats) es b) n = newScript_element p (heap b r)"
  using assms
proof (induction es arbitrary: b)
  case Nil
  then show ?case by simp
next
  case (Cons e es)
  obtain sid' r' where e: "e = (sid', r')" by (cases e)
  let ?b' = "unblock_entry p cats e b"
  have inv': "doc_inv ?b'" using Cons.prems(1) by (rule doc_inv_unblock_entry)
  have bound': "\<forall>e \<in> set es. snd e < next_ref ?b'"
    using Cons.prems(2) unblock_entry_next_ref [of b p cats e] by fastforce
  have r_lt: "r < next_ref b" using Cons.prems(2,3) by fastforce
  show ?case
  proof (cases "r' = r")
    case True
    let ?n = "next_ref b"
    have n_doc: "?n \<in> set (document ?b')"
      using Cons.prems(1,4,5) by (simp add: e True set_document_unblock_entry)
    have n_heap: "heap ?b' ?n = newScript_element p (heap b r)"
      using Cons.prems(4) by (simp add: e True unblock_entry_unfold)
    have n_next: "?n < next_ref ?b'"
      using Cons.prems(4) by (simp add: e True unblock_entry_unfold)
    have "?n \<notin> snd ` set es" using Cons.prems(2) by fastforce
    from unlisted_stays_attached [OF inv' n_doc this]
    have "?n \<in> set (document (fold (unblock_entry p cats) es ?b'))" .
    moreover have "heap (fold (unblock_entry p cats) es ?b') ?n = newScript_element p (heap b r)"
      using fold_unblock_heap [OF n_next] n_heap by simp
    ultimately show ?thesis by auto
  next
    case False
    then have "(sid, r) \<in> set es" using Cons.prems(3) e by auto
    moreover have "releasable p cats ?b' r"
      using Cons.prems(4) r_lt by (simp add: releasable_unblock_entry)
    moreover have "r \<in> set (document ?b')"
      using Cons.prems(1,5) False by (auto simp: e set_document_unblock_entry)
    ultimately obtain n where n: "n \<in> set (document (fold (unblock_entry p cats) es ?b'))"
        "next_ref ?b' \<le> n" "heap (fold (unblock_entry p cats) es ?b') n = newScript_element p (heap ?b' r)"
      using Cons.IH [OF inv' bound'] by blast
    have "heap ?b' r = heap b r" using r_lt by (rule unblock_entry_heap)
    with n(3) have "heap (fold (unblock_entry p cats) es ?b') n = newScript_element p (heap b r)"
      by simp
    moreover have "next_ref b \<le> n"
      using n(2) unblock_entry_next_ref [of b p cats e] by (rule order_trans [rotated])
    ultimately show ?thesis using n(1) by auto
  qed
qed

lemma releasable_currentConsent [simp]:
  "releasable p cats (b\<lparr>currentConsent := c\<rparr>) = releasable p cats b"
  by (simp add: releasable_def fun_eq_iff)

lemma doc_inv_currentConsent [simp]: "doc_inv (b\<lparr>currentConsent := c\<rparr>) = doc_inv b"
  by (simp add: doc_inv_def)

lemma distinct_keys_filter:
  assumes "distinct (map fst es)"
  shows "filter (\<lambda>e. fst e \<notin> fst ` set (filter P es)) es = filter (\<lambda>e. \<not> P e) es"
proof (rule filter_cong [OF refl])
  fix e assume e: "e \<in> set es"
  have "fst e \<in> fst ` set (filter P es) \<longleftrightarrow> P e"
  proof
    assume "fst e \<in> fst ` set (filter P es)"
    then obtain e' where e': "e' \<in> set es" "P e'" "fst e' = fst e" by auto
    from assms e e' have "e' = e"
      by (metis eq_key_imp_eq_value prod.collapse)
    with e' show "P e" by simp
  next
    assume "P e"
    with e show "fst e \<in> fst ` set (filter P es)" by auto
  qed
  then show "(fst e \<notin> fst ` set (filter P es)) = (\<not> P e)" by simp
qed

lemma unblock_blockedScripts:
  assumes "wf_ScriptBlocker b"
  shows "blockedScripts (unblock p cats b)
           = filter (\<lambda>e. \<not> releasable p cats b (snd e)) (blockedScripts b)"
proof -
  let ?b1 = "b\<lparr>currentConsent := Some cats\<rparr>"
  have "\<forall>e \<in> set (blockedScripts ?b1). snd e < next_ref ?b1"
    using assms by (simp add: wf_ScriptBlocker_def)
  from fold_unblock_blockedScripts [OF this, of p cats]
  have "blockedScripts (unblock p cats b)
          = filter (\<lambda>e. fst e \<notin> fst ` set (filter (\<lambda>e. releasable p cats b (snd e)) (blockedScripts b)))
              (blockedScripts b)"
    by (simp add: unblock_def Let_def)
  also have "\<dots> = filter (\<lambda>e. \<not> releasable p cats b (snd e)) (blockedScripts b)"
    using assms by (intro distinct_keys_filter) (simp add: wf_ScriptBlocker_def)
  finally show ?thesis .
qed

lemma unblock_frame [simp]:
  "categoryManager (unblock p cats b) = categoryManager b"
  "currentConsent (unblock p cats b) = Some cats"
  "observer (unblock p cats b) = observer b"
  "ids_generated (unblock p cats b) = ids_generated b"
  by (simp_all add: unblock_def Let_def)

lemma unblock_next_ref: "next_ref b \<le> next_ref (unblock p cats b)"
  using fold_unblock_next_ref [of "b\<lparr>currentConsent := Some cats\<rparr>" p cats "blockedScripts b"]
  by (simp add: unblock_def Let_def)

lemma unblock_heap: "x < next_ref b \<Longrightarrow> heap (unblock p cats b) x = heap b x"
  using fold_unblock_heap [of x "b\<lparr>currentConsent := Some cats\<rparr>" p cats "blockedScripts b"]
  by (simp add: unblock_def Let_def)

lemma unblock_emitted:
  assumes "wf_ScriptBlocker b"
  shows "emitted (unblock p cats b)
           = emitted b @ map (\<lambda>e. (''script:activated'', activated_payload p (heap b (snd e))))
                           (filter (\<lambda>e. releasable p cats b (snd e)) (blockedScripts b))"
proof -
  let ?b1 = "b\<lparr>currentConsent := Some cats\<rparr>"
  have "\<forall>e \<in> set (blockedScripts ?b1). snd e < next_ref ?b1"
    using assms by (simp add: wf_ScriptBlocker_def)
  from fold_unblock_emitted [OF this, of p cats] show ?thesis
    by (simp add: unblock_def Let_def)
qed

lemma unblock_released_detached:
  assumes "wf_ScriptBlocker b" and "(sid, r) \<in> set (blockedScripts b)" and "releasable p cats b r"
  shows "r \<notin> set (document (unblock p cats b))"
proof -
  let ?b1 = "b\<lparr>currentConsent := Some cats\<rparr>"
  have "doc_inv ?b1" "\<forall>e \<in> set (blockedScripts b). snd e < next_ref ?b1"
    using assms(1) by (simp_all add: wf_ScriptBlocker_def)
  from released_is_detached [OF this assms(2), of p cats] assms(3) show ?thesis
    by (simp add: unblock_def Let_def)
qed

lemma unblock_released_replaced:
  assumes "wf_ScriptBlocker b" and "(sid, r) \<in> set (blockedScripts b)" and "releasable p cats b r"
    and "r \<in> set (document b)"
  shows "\<exists>n \<in> set (document (unblock p cats b)).
           next_ref b \<le> n \<and> heap (unblock p cats b) n = newScript_element p (heap b r)"
proof -
  let ?b1 = "b\<lparr>currentConsent := Some cats\<rparr>"
  have "doc_inv ?b1" "\<forall>e \<in> set (blockedScripts b). snd e < next_ref ?b1"
    using assms(1) by (simp_all add: wf_ScriptBlocker_def)
  from released_is_replaced [OF this assms(2), of p cats] assms(3,4) show ?thesis
    by (simp add: unblock_def Let_def)
qed

lemma unblock_withheld_attached:
  assumes "wf_ScriptBlocker b" and "\<not> releasable p cats b r" and "r \<in> set (document b)"
  shows "r \<in> set (document (unblock p cats b))"
proof -
  let ?b1 = "b\<lparr>currentConsent := Some cats\<rparr>"
  have "doc_inv ?b1" using assms(1) by (simp add: wf_ScriptBlocker_def)
  from withheld_stays_attached [OF this, of r p cats "blockedScripts b"] assms(2,3) show ?thesis
    by (simp add: unblock_def Let_def)
qed

lemma unblock_idem:
  assumes "wf_ScriptBlocker b"
  shows "unblock p cats (unblock p cats b) = unblock p cats b"
proof -
  let ?b' = "unblock p cats b"
  have "\<forall>e \<in> set (blockedScripts ?b'). \<not> releasable p cats ?b' (snd e)"
  proof
    fix e assume "e \<in> set (blockedScripts ?b')"
    then have e: "e \<in> set (blockedScripts b)" "\<not> releasable p cats b (snd e)"
      by (simp_all add: unblock_blockedScripts [OF assms])
    then have "snd e < next_ref b" using assms by (simp add: wf_ScriptBlocker_def)
    then have "heap ?b' (snd e) = heap b (snd e)" by (rule unblock_heap)
    with e(2) show "\<not> releasable p cats ?b' (snd e)" by (simp add: releasable_def)
  qed
  then have "fold (unblock_entry p cats) (blockedScripts ?b') ?b' = ?b'"
    by (rule fold_unblock_skip)
  moreover have same: "?b'\<lparr>currentConsent := Some cats\<rparr> = ?b'" by simp
  moreover have "unblock p cats ?b'
      = fold (unblock_entry p cats) (blockedScripts (?b'\<lparr>currentConsent := Some cats\<rparr>))
          (?b'\<lparr>currentConsent := Some cats\<rparr>)"
    by (simp only: unblock_def [of p cats "unblock p cats b"] Let_def)
  ultimately show ?thesis
    by (simp only:)
qed

lemma wf_unblock:
  assumes "wf_ScriptBlocker b"
  shows "wf_ScriptBlocker (unblock p cats b)"
proof -
  have "doc_inv (unblock p cats b)"
    using assms doc_inv_fold [of "b\<lparr>currentConsent := Some cats\<rparr>" p cats "blockedScripts b"]
    by (simp add: unblock_def Let_def wf_ScriptBlocker_def)
  moreover have "distinct (map fst (blockedScripts (unblock p cats b)))"
    using assms by (simp add: unblock_blockedScripts wf_ScriptBlocker_def distinct_map_filter)
  moreover have "\<forall>e \<in> set (blockedScripts (unblock p cats b)). snd e < next_ref (unblock p cats b)"
    using assms unblock_next_ref [of b p cats]
    by (fastforce simp: unblock_blockedScripts wf_ScriptBlocker_def)
  ultimately show ?thesis by (simp add: wf_ScriptBlocker_def)
qed

lemma set_update_cases: "e \<in> set (AList.update k v al) \<Longrightarrow> e = (k, v) \<or> e \<in> set al"
  by (induction al) (auto split: if_splits)

lemma wf_processScript:
  assumes "wf_ScriptBlocker b" and "r < next_ref b"
  shows "wf_ScriptBlocker (processScript p r b)"
proof (cases "withholds p b r")
  case False
  with assms show ?thesis by (simp add: processScript_skip)
next
  case True
  let ?sid = "fst (generateScriptId p (heap b r) b)"
  have bs: "blockedScripts (processScript p r b) = AList.update ?sid r (blockedScripts b)"
    using True by (simp add: processScript_unfold generateScriptId_def)
  have "distinct (map fst (AList.update ?sid r (blockedScripts b)))"
    using assms(1) by (simp add: wf_ScriptBlocker_def distinct_update)
  moreover have "\<forall>e \<in> set (AList.update ?sid r (blockedScripts b)). snd e < next_ref b"
    using assms by (auto simp: wf_ScriptBlocker_def dest: set_update_cases)
  ultimately show ?thesis
    using assms(1) by (simp add: wf_ScriptBlocker_def bs doc_inv_def)
qed

lemma wf_fold_processScript:
  assumes "wf_ScriptBlocker b" and "\<forall>r \<in> set rs. r < next_ref b"
  shows "wf_ScriptBlocker (fold (processScript p) rs b)"
  using assms by (induction rs arbitrary: b) (simp_all add: wf_processScript)

lemma wf_blockExistingScripts: "wf_ScriptBlocker b \<Longrightarrow> wf_ScriptBlocker (blockExistingScripts p b)"
  unfolding blockExistingScripts_def
  by (rule wf_fold_processScript) (auto simp: wf_ScriptBlocker_def doc_inv_def querySelectorAll_scripts_def)

lemma wf_ScriptBlocker_new:
  "distinct doc \<Longrightarrow> \<forall>x \<in> set doc. x < n \<Longrightarrow> wf_ScriptBlocker (ScriptBlocker_new cm h doc n)"
  by (simp add: wf_ScriptBlocker_def doc_inv_def ScriptBlocker_new_def)

lemma wf_ScriptBlocker_init: "wf_ScriptBlocker b \<Longrightarrow> wf_ScriptBlocker (ScriptBlocker_init p b)"
  using wf_blockExistingScripts [of b p]
  by (simp add: ScriptBlocker_init_def observeDOM_def wf_ScriptBlocker_def doc_inv_def)

lemma getAttribute_textContent_update:
  "getAttribute (el\<lparr>textContent := t\<rparr>) name = getAttribute el name"
  by (simp add: getAttribute_def)

lemma type_prop_newScript_element:
  "type_prop (newScript_element p old) =
     (case getAttribute old ''data-original-type'' of
        None \<Rightarrow> ''text/javascript''
      | Some t \<Rightarrow> if t \<noteq> [] then t else ''text/javascript'')"
  by (simp add: newScript_element_def Let_def type_prop_def getAttribute_setAttribute
      getAttribute_textContent_update)

text \<open>
  What the element built by \<^verbatim>\<open>reactivateScript\<close> carries: the tag, the text of an inline
  script, and of the attributes the source as the property gave it, the original type,
  no \<open>data-original-type\<close>, and every other attribute as it was.
\<close>

lemma fold_copy_attributes:
  assumes "distinct (map fst xs)"
  shows "getAttribute (fold (\<lambda>(name, val) el. if P name then setAttribute name val el else el) xs el0) n
           = (if P n then (case map_of xs n of None \<Rightarrow> getAttribute el0 n | Some v \<Rightarrow> Some v)
              else getAttribute el0 n)"
  using assms
proof (induction xs arbitrary: el0)
  case Nil
  show ?case by simp
next
  case (Cons x xs)
  obtain k v where x: "x = (k, v)" by (cases x)
  from Cons.prems x have d: "distinct (map fst xs)" and k: "map_of xs k = None"
    by (auto simp add: map_of_eq_None_iff)
  from Cons.IH [OF d] x k show ?case
    by (auto simp add: getAttribute_setAttribute split: option.splits)
qed

lemma fold_copy_frame:
  "tagName (fold (\<lambda>(name, val) el. if P name then setAttribute name val el else el) xs el0) = tagName el0"
  "textContent (fold (\<lambda>(name, val) el. if P name then setAttribute name val el else el) xs el0) = textContent el0"
  by (induction xs arbitrary: el0) (simp_all split: prod.splits)

lemma tagName_newScript_element: "tagName (newScript_element p old) = ''script''"
  by (simp add: newScript_element_def Let_def fold_copy_frame)

lemma textContent_newScript_element:
  "textContent (newScript_element p old) = (if src_prop p old \<noteq> [] then [] else textContent old)"
  by (simp add: newScript_element_def Let_def fold_copy_frame)

lemma getAttribute_newScript_element:
  assumes "distinct (map fst (attributes old))"
  shows "getAttribute (newScript_element p old) name
           = (if name = ''src'' \<and> src_prop p old \<noteq> [] then Some (src_prop p old)
              else if name = ''type'' then
                Some (case getAttribute old ''data-original-type'' of
                        None \<Rightarrow> ''text/javascript''
                      | Some t \<Rightarrow> if t \<noteq> [] then t else ''text/javascript'')
              else if name = ''data-original-type'' then None
              else getAttribute old name)"
  using fold_copy_attributes [OF assms, of "\<lambda>name. name \<noteq> ''type'' \<and> name \<noteq> ''data-original-type''"
          "\<lparr>tagName = ''script'', attributes = [], textContent = []\<rparr>" name]
  by (auto simp add: newScript_element_def Let_def getAttribute_setAttribute
      getAttribute_textContent_update getAttribute_def [of old] getAttribute_def [of "\<lparr>tagName = ''script'', attributes = [], textContent = []\<rparr>"]
      split: option.splits)

subsection \<open>The script blocker on the sample page\<close>

lemma sample_category_none: "getCategoryForScript sample_platform initializeDefaultPatterns (sample_heap 2) = None"
  by (simp add: getCategoryForScript_def sample_heap_def getAttribute_def src_prop_def
      sample_platform_def initializeDefaultPatterns_def)

lemmas sample_blocker_defs =
  ScriptBlocker_init_def observeDOM_def blockExistingScripts_def querySelectorAll_scripts_def
  is_marked_script_def sample_blocker_def ScriptBlocker_new_def sample_heap_def hasAttribute_def
  processScript_def getCategoryForScript_def getAttribute_def src_prop_def type_prop_def
  generateScriptId_def sample_platform_def setAttribute_def Let_def initializeDefaultPatterns_def
  pad_numeral

lemma sample_init_blocked:
  "blockedScripts (ScriptBlocker_init sample_platform sample_blocker)
     = [(''https://www.google-analytics.com/analytics.js'', 0), (''inline-1717236000000-0.0000'', 1)]"
  by (simp add: sample_blocker_defs)

lemma sample_init_heap:
  "heap (ScriptBlocker_init sample_platform sample_blocker)
     = sample_heap
         (0 := \<lparr>tagName = ''script'',
                 attributes = [(''src'', ''https://www.google-analytics.com/analytics.js''),
                               (''data-cookieconsent'', ''analytics''),
                               (''data-original-type'', ''text/javascript''),
                               (''type'', ''text/plain'')],
                 textContent = []\<rparr>,
          1 := \<lparr>tagName = ''script'',
                 attributes = [(''type'', ''text/plain''), (''data-cookieconsent'', ''marketing''),
                               (''data-original-type'', ''module'')],
                 textContent = ''fbq(1)''\<rparr>)"
  by (simp add: sample_blocker_defs)

lemma sample_init_frame:
  "categoryManager (ScriptBlocker_init sample_platform sample_blocker) = initializeDefaultPatterns"
  "document (ScriptBlocker_init sample_platform sample_blocker) = [0, 1, 2, 3]"
  "next_ref (ScriptBlocker_init sample_platform sample_blocker) = 4"
  by (simp_all add: ScriptBlocker_init_def observeDOM_def blockExistingScripts_def sample_blocker_def
      ScriptBlocker_new_def)

lemma sample_wf: "wf_ScriptBlocker (ScriptBlocker_init sample_platform sample_blocker)"
  by (rule wf_ScriptBlocker_init) (simp add: sample_blocker_def wf_ScriptBlocker_new)

lemma not_withholds_not_added:
  assumes "\<not> withholds p b r" and "r \<notin> snd ` set (blockedScripts b)"
  shows "r \<notin> snd ` set (blockedScripts (fold (processScript p) rs b))"
  using assms
proof (induction rs arbitrary: b)
  case Nil
  then show ?case by simp
next
  case (Cons r' rs)
  let ?b' = "processScript p r' b"
  have "\<not> withholds p ?b' r" using Cons.prems(1) by (rule not_withholds_preserved)
  moreover have "r \<notin> snd ` set (blockedScripts ?b')"
  proof (cases "withholds p b r'")
    case True
    with Cons.prems(1) have "r' \<noteq> r" by auto
    with True Cons.prems(2) show ?thesis
      by (auto simp: processScript_unfold generateScriptId_def dest!: set_update_cases)
  next
    case False
    with Cons.prems(2) show ?thesis by (simp add: processScript_skip)
  qed
  ultimately show ?case using Cons.IH [of ?b'] by simp
qed

lemma category_none_not_withholds:
  "getCategoryForScript p (categoryManager b) (heap b r) = None \<Longrightarrow> \<not> withholds p b r"
  by (simp add: withholds_def)

lemma category_none_not_releasable:
  "getCategoryForScript p (categoryManager b) (heap b r) = None \<Longrightarrow> \<not> releasable p cats b r"
  by (simp add: releasable_def)

text \<open>
  \<^bold>\<open>Claim C1\<close> says that a marked script whose category resolves to null is placed in
  the withheld-set and never released.  \<open>processScript\<close> returns at once for such a
  script.  As amended: a script whose category resolves to null is left untouched by
  \<open>processScript\<close>, in the pass over the existing scripts and in the observer's
  callback, so it is not withheld and does not enter the withheld-set; and an entry of
  the withheld-set whose script has no category is never removed or reactivated by
  \<open>unblock\<close>, whatever the categories: the entry stays, its element is unchanged and
  stays attached.
\<close>

theorem uncategorised_script_is_never_withheld:
  assumes "getCategoryForScript p (categoryManager b) (heap b r) = None"
  shows "processScript p r b = b \<and>
         observer_callback p [ [r] ] b = b \<and>
         (r \<notin> snd ` set (blockedScripts b) \<longrightarrow>
            r \<notin> snd ` set (blockedScripts (blockExistingScripts p b))) \<and>
         (wf_ScriptBlocker b \<longrightarrow>
            (\<forall>sid. (sid, r) \<in> set (blockedScripts b) \<longrightarrow>
               (sid, r) \<in> set (blockedScripts (unblock p cats b)) \<and>
               heap (unblock p cats b) r = heap b r \<and>
               (r \<in> set (document b) \<longrightarrow> r \<in> set (document (unblock p cats b)))))"
proof -
  from assms have nw: "\<not> withholds p b r" by (rule category_none_not_withholds)
  from assms have nr: "\<not> releasable p cats b r" by (rule category_none_not_releasable)
  have 1: "processScript p r b = b" using nw by (rule processScript_skip)
  have 2: "observer_callback p [ [r] ] b = b"
    by (simp add: observer_callback_def 1)
  have 3: "r \<notin> snd ` set (blockedScripts b) \<longrightarrow>
             r \<notin> snd ` set (blockedScripts (blockExistingScripts p b))"
    unfolding blockExistingScripts_def using nw by (auto dest: not_withholds_not_added)
  have 4: "wf_ScriptBlocker b \<longrightarrow>
            (\<forall>sid. (sid, r) \<in> set (blockedScripts b) \<longrightarrow>
               (sid, r) \<in> set (blockedScripts (unblock p cats b)) \<and>
               heap (unblock p cats b) r = heap b r \<and>
               (r \<in> set (document b) \<longrightarrow> r \<in> set (document (unblock p cats b))))"
  proof (intro impI allI)
    fix sid assume wf: "wf_ScriptBlocker b" and e: "(sid, r) \<in> set (blockedScripts b)"
    from wf e have "r < next_ref b" by (auto simp: wf_ScriptBlocker_def)
    then have "heap (unblock p cats b) r = heap b r" by (rule unblock_heap)
    moreover have "(sid, r) \<in> set (blockedScripts (unblock p cats b))"
      using e nr by (simp add: unblock_blockedScripts [OF wf])
    moreover have "r \<in> set (document b) \<longrightarrow> r \<in> set (document (unblock p cats b))"
      using unblock_withheld_attached [OF wf nr] by blast
    ultimately show "(sid, r) \<in> set (blockedScripts (unblock p cats b)) \<and>
               heap (unblock p cats b) r = heap b r \<and>
               (r \<in> set (document b) \<longrightarrow> r \<in> set (document (unblock p cats b)))"
      by blast
  qed
  from 1 2 3 4 show ?thesis by blast
qed

text \<open>
  On the sample page the third script carries the marker with an empty value and a source
  that no pattern matches: after \<open>init\<close>, and after the observer's callback on it, it is
  not in the withheld-set.
\<close>

theorem uncategorised_marked_script_not_withheld:
  "hasAttribute (sample_heap 2) ''data-cookieconsent'' \<and>
   getCategoryForScript sample_platform (categoryManager sample_blocker) (heap sample_blocker 2) = None \<and>
   2 \<notin> snd ` set (blockedScripts (ScriptBlocker_init sample_platform sample_blocker)) \<and>
   2 \<notin> snd ` set (blockedScripts (observer_callback sample_platform [ [2] ] (observeDOM sample_blocker)))"
  by (simp add: sample_init_blocked)
     (simp add: observer_callback_def sample_blocker_defs)

theorem uncategorised_script_is_never_withheld_witness:
  "getCategoryForScript sample_platform (categoryManager sample_orphan) (heap sample_orphan 2) = None \<and>
   wf_ScriptBlocker sample_orphan \<and>
   (''https://example.org/app.js'', 2) \<in> set (blockedScripts sample_orphan) \<and>
   2 \<in> set (document sample_orphan) \<and>
   processScript sample_platform 2 sample_orphan = sample_orphan \<and>
   (''https://example.org/app.js'', 2)
     \<in> set (blockedScripts (unblock sample_platform [(''necessary'', True), (''analytics'', True), (''marketing'', True)]
                               sample_orphan)) \<and>
   heap (unblock sample_platform [(''necessary'', True), (''analytics'', True), (''marketing'', True)] sample_orphan) 2
     = heap sample_orphan 2 \<and>
   2 \<in> set (document (unblock sample_platform [(''necessary'', True), (''analytics'', True), (''marketing'', True)]
                         sample_orphan)) \<and>
   getCategoryForScript sample_platform (categoryManager sample_blocker) (heap sample_blocker 2) = None \<and>
   2 \<notin> snd ` set (blockedScripts sample_blocker) \<and>
   2 \<notin> snd ` set (blockedScripts (blockExistingScripts sample_platform sample_blocker))"
proof -
  let ?all = "[(''necessary'', True), (''analytics'', True), (''marketing'', True)]"
  have cat: "getCategoryForScript sample_platform (categoryManager sample_orphan) (heap sample_orphan 2) = None"
    by (simp add: sample_orphan_def sample_blocker_def ScriptBlocker_new_def sample_category_none)
  have wf: "wf_ScriptBlocker sample_orphan"
    by (simp add: sample_orphan_def sample_blocker_def ScriptBlocker_new_def wf_ScriptBlocker_def
        doc_inv_def)
  have entry: "(''https://example.org/app.js'', 2) \<in> set (blockedScripts sample_orphan)"
    and doc: "2 \<in> set (document sample_orphan)"
    by (simp_all add: sample_orphan_def sample_blocker_def ScriptBlocker_new_def)
  have cat': "getCategoryForScript sample_platform (categoryManager sample_blocker) (heap sample_blocker 2) = None"
    and fresh: "2 \<notin> snd ` set (blockedScripts sample_blocker)"
    by (simp_all add: sample_blocker_def ScriptBlocker_new_def sample_category_none)
  from uncategorised_script_is_never_withheld [OF cat, of ?all] wf entry doc
  have "processScript sample_platform 2 sample_orphan = sample_orphan"
    "(''https://example.org/app.js'', 2) \<in> set (blockedScripts (unblock sample_platform ?all sample_orphan))"
    "heap (unblock sample_platform ?all sample_orphan) 2 = heap sample_orphan 2"
    "2 \<in> set (document (unblock sample_platform ?all sample_orphan))"
    by blast+
  moreover from uncategorised_script_is_never_withheld [OF cat', of ?all] fresh
  have "2 \<notin> snd ` set (blockedScripts (blockExistingScripts sample_platform sample_blocker))"
    by blast
  ultimately show ?thesis using cat wf entry doc cat' fresh by blast
qed

lemma isAllowed_analytics_only [simp]:
  "isAllowed ''analytics'' analytics_only" "\<not> isAllowed ''marketing'' analytics_only"
  by (simp_all add: isAllowed_def analytics_only_def)

text \<open>
  The entries of the withheld-set under \<^verbatim>\<open>{analytics: true, marketing: false, necessary: true}\<close>.
  In a well-formed state \<open>unblock\<close> releases every entry whose script resolves to
  \<open>analytics\<close>: its key leaves the set, the withheld element leaves the document, a new
  element built from it, with the original type, stands in the document when the
  withheld one was attached, and \<open>script:activated\<close> is emitted for it.  Every entry
  whose script resolves to \<open>marketing\<close> stays in the set, with its element unchanged
  and still attached.  The events emitted are one \<open>script:activated\<close> for each released
  entry, in the order of the set.  A second call with the same categories changes nothing.
\<close>

lemma unblock_analytics_only_entries:
  assumes "wf_ScriptBlocker b"
  shows "(\<forall>(sid, r) \<in> set (blockedScripts b).
            getCategoryForScript p (categoryManager b) (heap b r) = Some ''analytics'' \<longrightarrow>
              sid \<notin> fst ` set (blockedScripts (unblock p analytics_only b)) \<and>
              r \<notin> set (document (unblock p analytics_only b)) \<and>
              (r \<in> set (document b) \<longrightarrow>
                 (\<exists>n \<in> set (document (unblock p analytics_only b)).
                    heap (unblock p analytics_only b) n = newScript_element p (heap b r) \<and>
                    type_prop (heap (unblock p analytics_only b) n)
                      = (case getAttribute (heap b r) ''data-original-type'' of
                           None \<Rightarrow> ''text/javascript''
                         | Some t \<Rightarrow> if t \<noteq> [] then t else ''text/javascript''))) \<and>
              (''script:activated'', activated_payload p (heap b r))
                \<in> set (emitted (unblock p analytics_only b))) \<and>
         (\<forall>(sid, r) \<in> set (blockedScripts b).
            getCategoryForScript p (categoryManager b) (heap b r) = Some ''marketing'' \<longrightarrow>
              (sid, r) \<in> set (blockedScripts (unblock p analytics_only b)) \<and>
              heap (unblock p analytics_only b) r = heap b r \<and>
              (r \<in> set (document b) \<longrightarrow> r \<in> set (document (unblock p analytics_only b)))) \<and>
         emitted (unblock p analytics_only b)
           = emitted b @ map (\<lambda>e. (''script:activated'', activated_payload p (heap b (snd e))))
                           (filter (\<lambda>e. releasable p analytics_only b (snd e)) (blockedScripts b)) \<and>
         unblock p analytics_only (unblock p analytics_only b) = unblock p analytics_only b"
proof -
  let ?u = "unblock p analytics_only b"
  have analytics: "\<forall>(sid, r) \<in> set (blockedScripts b).
            getCategoryForScript p (categoryManager b) (heap b r) = Some ''analytics'' \<longrightarrow>
              sid \<notin> fst ` set (blockedScripts ?u) \<and>
              r \<notin> set (document ?u) \<and>
              (r \<in> set (document b) \<longrightarrow>
                 (\<exists>n \<in> set (document ?u). heap ?u n = newScript_element p (heap b r) \<and>
                    type_prop (heap ?u n)
                      = (case getAttribute (heap b r) ''data-original-type'' of
                           None \<Rightarrow> ''text/javascript''
                         | Some t \<Rightarrow> if t \<noteq> [] then t else ''text/javascript''))) \<and>
              (''script:activated'', activated_payload p (heap b r)) \<in> set (emitted ?u)"
  proof (intro ballI, clarify)
    fix sid r
    assume e: "(sid, r) \<in> set (blockedScripts b)"
      and c: "getCategoryForScript p (categoryManager b) (heap b r) = Some ''analytics''"
    from c have rel: "releasable p analytics_only b r" by (simp add: releasable_def)
    have "sid \<notin> fst ` set (blockedScripts ?u)"
    proof
      assume "sid \<in> fst ` set (blockedScripts ?u)"
      then obtain r' where r': "(sid, r') \<in> set (blockedScripts b)" "\<not> releasable p analytics_only b r'"
        by (auto simp: unblock_blockedScripts [OF assms])
      from assms have "distinct (map fst (blockedScripts b))" by (simp add: wf_ScriptBlocker_def)
      from eq_key_imp_eq_value [OF this e r'(1)] rel r'(2) show False by simp
    qed
    moreover have "r \<notin> set (document ?u)"
      using assms e rel by (rule unblock_released_detached)
    moreover have "r \<in> set (document b) \<longrightarrow>
                 (\<exists>n \<in> set (document ?u). heap ?u n = newScript_element p (heap b r) \<and>
                    type_prop (heap ?u n)
                      = (case getAttribute (heap b r) ''data-original-type'' of
                           None \<Rightarrow> ''text/javascript''
                         | Some t \<Rightarrow> if t \<noteq> [] then t else ''text/javascript''))"
    proof
      assume "r \<in> set (document b)"
      with unblock_released_replaced [OF assms e rel]
      obtain n where n: "n \<in> set (document ?u)" "heap ?u n = newScript_element p (heap b r)"
        by blast
      from n(2) have "type_prop (heap ?u n)
                      = (case getAttribute (heap b r) ''data-original-type'' of
                           None \<Rightarrow> ''text/javascript''
                         | Some t \<Rightarrow> if t \<noteq> [] then t else ''text/javascript'')"
        by (simp add: type_prop_newScript_element)
      with n show "\<exists>n \<in> set (document ?u). heap ?u n = newScript_element p (heap b r) \<and>
                    type_prop (heap ?u n)
                      = (case getAttribute (heap b r) ''data-original-type'' of
                           None \<Rightarrow> ''text/javascript''
                         | Some t \<Rightarrow> if t \<noteq> [] then t else ''text/javascript'')"
        by blast
    qed
    moreover have "(''script:activated'', activated_payload p (heap b r)) \<in> set (emitted ?u)"
      using e rel by (force simp: unblock_emitted [OF assms])
    ultimately show "sid \<notin> fst ` set (blockedScripts ?u) \<and>
              r \<notin> set (document ?u) \<and>
              (r \<in> set (document b) \<longrightarrow>
                 (\<exists>n \<in> set (document ?u). heap ?u n = newScript_element p (heap b r) \<and>
                    type_prop (heap ?u n)
                      = (case getAttribute (heap b r) ''data-original-type'' of
                           None \<Rightarrow> ''text/javascript''
                         | Some t \<Rightarrow> if t \<noteq> [] then t else ''text/javascript''))) \<and>
              (''script:activated'', activated_payload p (heap b r)) \<in> set (emitted ?u)"
      by blast
  qed
  have marketing: "\<forall>(sid, r) \<in> set (blockedScripts b).
            getCategoryForScript p (categoryManager b) (heap b r) = Some ''marketing'' \<longrightarrow>
              (sid, r) \<in> set (blockedScripts ?u) \<and>
              heap ?u r = heap b r \<and>
              (r \<in> set (document b) \<longrightarrow> r \<in> set (document ?u))"
  proof (intro ballI, clarify)
    fix sid r
    assume e: "(sid, r) \<in> set (blockedScripts b)"
      and c: "getCategoryForScript p (categoryManager b) (heap b r) = Some ''marketing''"
    from c have nrel: "\<not> releasable p analytics_only b r" by (simp add: releasable_def)
    from assms e have "r < next_ref b" by (auto simp: wf_ScriptBlocker_def)
    then have "heap ?u r = heap b r" by (rule unblock_heap)
    moreover have "(sid, r) \<in> set (blockedScripts ?u)"
      using e nrel by (simp add: unblock_blockedScripts [OF assms])
    moreover have "r \<in> set (document b) \<longrightarrow> r \<in> set (document ?u)"
      using unblock_withheld_attached [OF assms nrel] by blast
    ultimately show "(sid, r) \<in> set (blockedScripts ?u) \<and>
              heap ?u r = heap b r \<and>
              (r \<in> set (document b) \<longrightarrow> r \<in> set (document ?u))"
      by blast
  qed
  have idem: "unblock p analytics_only ?u = ?u"
    using assms by (rule unblock_idem)
  have events: "emitted ?u
           = emitted b @ map (\<lambda>e. (''script:activated'', activated_payload p (heap b (snd e))))
                           (filter (\<lambda>e. releasable p analytics_only b (snd e)) (blockedScripts b))"
    using assms by (rule unblock_emitted)
  from analytics marketing idem events show ?thesis by simp
qed


lemma unblock_analytics_only_entries_sample:
  "wf_ScriptBlocker (ScriptBlocker_init sample_platform sample_blocker) \<and>
   (''https://www.google-analytics.com/analytics.js'', 0)
     \<in> set (blockedScripts (ScriptBlocker_init sample_platform sample_blocker)) \<and>
   getCategoryForScript sample_platform (categoryManager (ScriptBlocker_init sample_platform sample_blocker))
     (heap (ScriptBlocker_init sample_platform sample_blocker) 0) = Some ''analytics'' \<and>
   0 \<in> set (document (ScriptBlocker_init sample_platform sample_blocker)) \<and>
   (''inline-1717236000000-0.0000'', 1)
     \<in> set (blockedScripts (ScriptBlocker_init sample_platform sample_blocker)) \<and>
   getCategoryForScript sample_platform (categoryManager (ScriptBlocker_init sample_platform sample_blocker))
     (heap (ScriptBlocker_init sample_platform sample_blocker) 1) = Some ''marketing'' \<and>
   1 \<in> set (document (ScriptBlocker_init sample_platform sample_blocker)) \<and>
   ''https://www.google-analytics.com/analytics.js''
     \<notin> fst ` set (blockedScripts (unblock sample_platform analytics_only (ScriptBlocker_init sample_platform sample_blocker))) \<and>
   0 \<notin> set (document (unblock sample_platform analytics_only (ScriptBlocker_init sample_platform sample_blocker))) \<and>
   (\<exists>n \<in> set (document (unblock sample_platform analytics_only (ScriptBlocker_init sample_platform sample_blocker))).
      type_prop (heap (unblock sample_platform analytics_only (ScriptBlocker_init sample_platform sample_blocker)) n)
        = ''text/javascript'') \<and>
   (''inline-1717236000000-0.0000'', 1)
     \<in> set (blockedScripts (unblock sample_platform analytics_only (ScriptBlocker_init sample_platform sample_blocker))) \<and>
   1 \<in> set (document (unblock sample_platform analytics_only (ScriptBlocker_init sample_platform sample_blocker))) \<and>
   unblock sample_platform analytics_only (unblock sample_platform analytics_only (ScriptBlocker_init sample_platform sample_blocker))
     = unblock sample_platform analytics_only (ScriptBlocker_init sample_platform sample_blocker)"
proof -
  let ?b = "ScriptBlocker_init sample_platform sample_blocker"
  let ?ga = "''https://www.google-analytics.com/analytics.js''"
  let ?fb = "''inline-1717236000000-0.0000''"
  have e0: "(?ga, 0) \<in> set (blockedScripts ?b)" and e1: "(?fb, 1) \<in> set (blockedScripts ?b)"
    by (simp_all add: sample_init_blocked)
  have c0: "getCategoryForScript sample_platform (categoryManager ?b) (heap ?b 0) = Some ''analytics''"
    and c1: "getCategoryForScript sample_platform (categoryManager ?b) (heap ?b 1) = Some ''marketing''"
    and t0: "getAttribute (heap ?b 0) ''data-original-type'' = Some ''text/javascript''"
    by (simp_all add: sample_init_heap sample_init_frame getCategoryForScript_def getAttribute_def)
  have d: "0 \<in> set (document ?b)" "1 \<in> set (document ?b)"
    by (simp_all add: sample_init_frame)
  note inst = unblock_analytics_only_entries [OF sample_wf]
  from inst e0 c0 d(1) t0
  have "?ga \<notin> fst ` set (blockedScripts (unblock sample_platform analytics_only ?b))"
    "0 \<notin> set (document (unblock sample_platform analytics_only ?b))"
    "\<exists>n \<in> set (document (unblock sample_platform analytics_only ?b)).
       type_prop (heap (unblock sample_platform analytics_only ?b) n) = ''text/javascript''"
    by fastforce+
  moreover from inst e1 c1 d(2)
  have "(?fb, 1) \<in> set (blockedScripts (unblock sample_platform analytics_only ?b))"
    "1 \<in> set (document (unblock sample_platform analytics_only ?b))"
    by fastforce+
  moreover from inst
  have "unblock sample_platform analytics_only (unblock sample_platform analytics_only ?b) = unblock sample_platform analytics_only ?b"
    by blast
  ultimately show ?thesis using sample_wf e0 e1 c0 c1 d by blast
qed

lemmas sample_twin_defs =
  ScriptBlocker_init_def observeDOM_def blockExistingScripts_def querySelectorAll_scripts_def
  is_marked_script_def sample_twin_blocker_def ScriptBlocker_new_def sample_twin_heap_def hasAttribute_def
  processScript_def getCategoryForScript_def getAttribute_def src_prop_def type_prop_def
  generateScriptId_def sample_platform_def setAttribute_def Let_def initializeDefaultPatterns_def

lemma sample_twin_withheld_eq:
  "sample_twin_withheld
     = \<lparr>heap = sample_twin_heap
         (0 := \<lparr>tagName = ''script'',
                 attributes = [(''src'', ''https://www.google-analytics.com/analytics.js''),
                               (''data-cookieconsent'', ''analytics''),
                               (''data-original-type'', ''text/javascript''),
                               (''type'', ''text/plain'')],
                 textContent = []\<rparr>,
          1 := \<lparr>tagName = ''script'',
                 attributes = [(''src'', ''https://www.google-analytics.com/analytics.js''),
                               (''data-cookieconsent'', ''analytics''), (''async'', []),
                               (''data-original-type'', ''text/javascript''),
                               (''type'', ''text/plain'')],
                 textContent = []\<rparr>),
        document = [0, 1, 2], next_ref = 3,
        blockedScripts = [(''https://www.google-analytics.com/analytics.js'', 1)],
        currentConsent = None, observer = True, categoryManager = initializeDefaultPatterns,
        emitted = [], ids_generated = 0\<rparr>"
  by (simp add: sample_twin_withheld_def sample_twin_defs)

lemma sample_twin_wf: "wf_ScriptBlocker sample_twin_withheld" "wf_ScriptBlocker sample_twin_released"
  unfolding sample_twin_withheld_def sample_twin_released_def
  by (rule wf_ScriptBlocker_init wf_unblock, simp add: sample_twin_blocker_def wf_ScriptBlocker_new)
     (rule wf_unblock, rule wf_ScriptBlocker_init, simp add: sample_twin_blocker_def wf_ScriptBlocker_new)

lemmas unblock_defs =
  unblock_def unblock_entry_def reactivateScript_def newScript_element_def activated_payload_def
  emit_event_def removeChild_def isAllowed_def getCategoryForScript_def getAttribute_def
  src_prop_def type_prop_def setAttribute_def sample_platform_def Let_def

lemma sample_twin_released_eq:
  "sample_twin_released
     = \<lparr>heap = (heap sample_twin_withheld)
         (3 := \<lparr>tagName = ''script'',
                 attributes = [(''src'', ''https://www.google-analytics.com/analytics.js''),
                               (''data-cookieconsent'', ''analytics''), (''async'', []),
                               (''type'', ''text/javascript'')],
                 textContent = []\<rparr>),
        document = [0, 3, 2], next_ref = 4,
        blockedScripts = [],
        currentConsent = Some analytics_only, observer = True,
        categoryManager = initializeDefaultPatterns,
        emitted = [(''script:activated'',
                    JObj [(''category'', JStr ''analytics''),
                          (''src'', JStr ''https://www.google-analytics.com/analytics.js'')])],
        ids_generated = 0\<rparr>"
  by (simp add: sample_twin_released_def sample_twin_withheld_eq unblock_defs analytics_only_def)

text \<open>
  \<^bold>\<open>Claim C5.\<close>  The page that loads one analytics source from two script elements.
  \<^verbatim>\<open>init\<close> withholds both: each resolves to \<open>analytics\<close>, each has the type
  \<open>text/plain\<close>, and both stay in the document.  \<^verbatim>\<open>generateScriptId\<close> gives both the same
  identifier, their source, so the second \<^verbatim>\<open>blockedScripts.set\<close> replaces the entry of
  the first and the withheld-set holds the second element only.  \<^verbatim>\<open>unblock\<close> with
  \<^verbatim>\<open>{analytics: true, marketing: false, necessary: true}\<close> then replaces the second
  element by a new one of type \<open>text/javascript\<close> that carries its source and its other
  attributes, and emits one \<open>script:activated\<close>; the first element is still in the
  document, unchanged, of type \<open>text/plain\<close>, and the set is empty, so that a later
  \<^verbatim>\<open>unblock\<close>, even one that allows every category, leaves it there and emits nothing.
  Both states are well-formed (\<open>sample_twin_wf\<close>).
\<close>

theorem twin_script_is_never_released:
  "getCategoryForScript sample_platform (categoryManager sample_twin_withheld) (heap sample_twin_withheld 0)
     = Some ''analytics'' \<and>
   getCategoryForScript sample_platform (categoryManager sample_twin_withheld) (heap sample_twin_withheld 1)
     = Some ''analytics'' \<and>
   type_prop (heap sample_twin_withheld 0) = ''text/plain'' \<and>
   type_prop (heap sample_twin_withheld 1) = ''text/plain'' \<and>
   document sample_twin_withheld = [0, 1, 2] \<and>
   blockedScripts sample_twin_withheld = [(''https://www.google-analytics.com/analytics.js'', 1)] \<and>
   document sample_twin_released = [0, 3, 2] \<and>
   heap sample_twin_released 0 = heap sample_twin_withheld 0 \<and>
   type_prop (heap sample_twin_released 0) = ''text/plain'' \<and>
   heap sample_twin_released 3
     = \<lparr>tagName = ''script'',
        attributes = [(''src'', ''https://www.google-analytics.com/analytics.js''),
                      (''data-cookieconsent'', ''analytics''), (''async'', []),
                      (''type'', ''text/javascript'')],
        textContent = []\<rparr> \<and>
   blockedScripts sample_twin_released = [] \<and>
   emitted sample_twin_released
     = [(''script:activated'',
         JObj [(''category'', JStr ''analytics''),
               (''src'', JStr ''https://www.google-analytics.com/analytics.js'')])] \<and>
   document (unblock sample_platform all_granted sample_twin_released) = [0, 3, 2] \<and>
   heap (unblock sample_platform all_granted sample_twin_released) 0 = heap sample_twin_withheld 0 \<and>
   emitted (unblock sample_platform all_granted sample_twin_released) = emitted sample_twin_released"
proof -
  have again: "unblock sample_platform all_granted sample_twin_released
                 = sample_twin_released\<lparr>currentConsent := Some all_granted\<rparr>"
    by (simp add: sample_twin_released_eq unblock_def)
  show ?thesis
    by (simp add: again)
       (simp add: sample_twin_released_eq sample_twin_withheld_eq getCategoryForScript_def
          getAttribute_def type_prop_def)
qed


text \<open>
  \<^bold>\<open>Claim C10.\<close>  Withholding is idempotent and keeps the restoration record.
  \<open>processScript\<close> leaves the state as it is for a script whose type is already
  \<open>text/plain\<close>, so a second call on the same script, a second pass over the existing
  scripts and a second \<open>block\<close> change nothing: no entry is added again and no attribute
  is written again.  When a script is withheld, \<open>data-original-type\<close> receives the type
  it had, or \<open>text/javascript\<close> when it had none: never \<open>text/plain\<close>, never empty.
  An original type other than \<open>text/plain\<close> stays so through every call and pass.
\<close>

theorem withholding_is_idempotent:
  "processScript p r (processScript p r b) = processScript p r b \<and>
   (type_prop (heap b r) = ''text/plain'' \<longrightarrow> processScript p r b = b) \<and>
   blockExistingScripts p (blockExistingScripts p b) = blockExistingScripts p b \<and>
   block p (block p b) = block p b \<and>
   (withholds p b r \<longrightarrow>
      type_prop (heap (processScript p r b) r) = ''text/plain'' \<and>
      getAttribute (heap (processScript p r b) r) ''data-original-type''
        = Some (if type_prop (heap b r) \<noteq> [] then type_prop (heap b r) else ''text/javascript'') \<and>
      getAttribute (heap (processScript p r b) r) ''data-original-type'' \<noteq> Some ''text/plain'' \<and>
      getAttribute (heap (processScript p r b) r) ''data-original-type'' \<noteq> Some []) \<and>
   (getAttribute (heap b x) ''data-original-type'' \<noteq> Some ''text/plain'' \<longrightarrow>
      getAttribute (heap (processScript p r b) x) ''data-original-type'' \<noteq> Some ''text/plain'' \<and>
      getAttribute (heap (blockExistingScripts p b) x) ''data-original-type'' \<noteq> Some ''text/plain'' \<and>
      getAttribute (heap (block p b) x) ''data-original-type'' \<noteq> Some ''text/plain'')"
proof -
  have 1: "type_prop (heap b r) = ''text/plain'' \<longrightarrow> processScript p r b = b"
    by (auto simp: withholds_def split: option.splits intro!: processScript_skip)
  have 2: "withholds p b r \<longrightarrow>
      type_prop (heap (processScript p r b) r) = ''text/plain'' \<and>
      getAttribute (heap (processScript p r b) r) ''data-original-type''
        = Some (if type_prop (heap b r) \<noteq> [] then type_prop (heap b r) else ''text/javascript'') \<and>
      getAttribute (heap (processScript p r b) r) ''data-original-type'' \<noteq> Some ''text/plain'' \<and>
      getAttribute (heap (processScript p r b) r) ''data-original-type'' \<noteq> Some []"
  proof
    assume w: "withholds p b r"
    then have plain: "type_prop (heap b r) \<noteq> ''text/plain''"
      by (auto simp: withholds_def split: option.splits)
    have "type_prop (heap (processScript p r b) r) = ''text/plain''"
      using w by (simp add: processScript_unfold generateScriptId_def type_after_withholding)
    moreover have "getAttribute (heap (processScript p r b) r) ''data-original-type''
        = Some (if type_prop (heap b r) \<noteq> [] then type_prop (heap b r) else ''text/javascript'')"
      using w by (simp add: original_type_processScript)
    ultimately show "type_prop (heap (processScript p r b) r) = ''text/plain'' \<and>
      getAttribute (heap (processScript p r b) r) ''data-original-type''
        = Some (if type_prop (heap b r) \<noteq> [] then type_prop (heap b r) else ''text/javascript'') \<and>
      getAttribute (heap (processScript p r b) r) ''data-original-type'' \<noteq> Some ''text/plain'' \<and>
      getAttribute (heap (processScript p r b) r) ''data-original-type'' \<noteq> Some []"
      using plain by simp
  qed
  have 3: "getAttribute (heap b x) ''data-original-type'' \<noteq> Some ''text/plain'' \<longrightarrow>
      getAttribute (heap (processScript p r b) x) ''data-original-type'' \<noteq> Some ''text/plain'' \<and>
      getAttribute (heap (blockExistingScripts p b) x) ''data-original-type'' \<noteq> Some ''text/plain'' \<and>
      getAttribute (heap (block p b) x) ''data-original-type'' \<noteq> Some ''text/plain''"
  proof
    assume a: "getAttribute (heap b x) ''data-original-type'' \<noteq> Some ''text/plain''"
    then have "getAttribute (heap (b\<lparr>currentConsent := None\<rparr>) x) ''data-original-type'' \<noteq> Some ''text/plain''"
      by simp
    then have "getAttribute (heap (block p b) x) ''data-original-type'' \<noteq> Some ''text/plain''"
      unfolding block_def blockExistingScripts_def by (rule original_type_fold)
    moreover have "getAttribute (heap (blockExistingScripts p b) x) ''data-original-type'' \<noteq> Some ''text/plain''"
      unfolding blockExistingScripts_def using a by (rule original_type_fold)
    moreover have "getAttribute (heap (processScript p r b) x) ''data-original-type'' \<noteq> Some ''text/plain''"
      using a by (rule original_type_never_withheld_type)
    ultimately show "getAttribute (heap (processScript p r b) x) ''data-original-type'' \<noteq> Some ''text/plain'' \<and>
      getAttribute (heap (blockExistingScripts p b) x) ''data-original-type'' \<noteq> Some ''text/plain'' \<and>
      getAttribute (heap (block p b) x) ''data-original-type'' \<noteq> Some ''text/plain''"
      by blast
  qed
  from 1 2 3 processScript_idem [of p r b] blockExistingScripts_idem [of p b] block_idem [of p b]
  show ?thesis by blast
qed

theorem withholding_is_idempotent_witness:
  "withholds sample_platform sample_blocker 1 \<and>
   type_prop (heap (processScript sample_platform 1 sample_blocker) 1) = ''text/plain'' \<and>
   getAttribute (heap (processScript sample_platform 1 sample_blocker) 1) ''data-original-type''
     = Some ''module'' \<and>
   processScript sample_platform 1 (processScript sample_platform 1 sample_blocker)
     = processScript sample_platform 1 sample_blocker \<and>
   getAttribute (heap sample_blocker 1) ''data-original-type'' \<noteq> Some ''text/plain'' \<and>
   getAttribute (heap (block sample_platform sample_blocker) 1) ''data-original-type''
     \<noteq> Some ''text/plain'' \<and>
   block sample_platform (block sample_platform sample_blocker) = block sample_platform sample_blocker \<and>
   type_prop (heap (ScriptBlocker_init sample_platform sample_blocker) 0) = ''text/plain'' \<and>
   processScript sample_platform 0 (ScriptBlocker_init sample_platform sample_blocker)
     = ScriptBlocker_init sample_platform sample_blocker"
proof -
  let ?b' = "ScriptBlocker_init sample_platform sample_blocker"
  have w: "withholds sample_platform sample_blocker 1"
    and t: "type_prop (heap sample_blocker 1) = ''module''"
    and o: "getAttribute (heap sample_blocker 1) ''data-original-type'' \<noteq> Some ''text/plain''"
    by (simp_all add: withholds_def sample_blocker_def ScriptBlocker_new_def sample_heap_def
        getCategoryForScript_def getAttribute_def type_prop_def)
  have plain: "type_prop (heap ?b' 0) = ''text/plain''"
    by (simp add: sample_init_heap type_prop_def getAttribute_def)
  from withholding_is_idempotent [of sample_platform 1 sample_blocker 1] w t o
  have "type_prop (heap (processScript sample_platform 1 sample_blocker) 1) = ''text/plain''"
    "getAttribute (heap (processScript sample_platform 1 sample_blocker) 1) ''data-original-type''
       = Some ''module''"
    "processScript sample_platform 1 (processScript sample_platform 1 sample_blocker)
       = processScript sample_platform 1 sample_blocker"
    "getAttribute (heap (block sample_platform sample_blocker) 1) ''data-original-type''
       \<noteq> Some ''text/plain''"
    "block sample_platform (block sample_platform sample_blocker) = block sample_platform sample_blocker"
    by simp_all
  moreover from withholding_is_idempotent [of sample_platform 0 ?b' 0] plain
  have "processScript sample_platform 0 ?b' = ?b'"
    by blast
  ultimately show ?thesis using w o plain by blast
qed

subsection \<open>Start-up with a stored record\<close>

lemma applyConsent_stored_consentManager:
  "applyConsent_stored p v a = (r, a') \<Longrightarrow> consentManager a' = consentManager a"
  by (auto simp add: applyConsent_stored_def applyConsent_def split: if_splits prod.splits)

lemma init_consentManager: "consentManager (snd (init p now a)) = consentManager a"
proof -
  let ?a1 = "a\<lparr>scriptBlocker := ScriptBlocker_init p (scriptBlocker a)\<rparr>"
  let ?a2 = "if gtmIntegration a then setDefaultConsent ?a1 else ?a1"
  obtain x w' where l: "load p (window ?a2) = (Returns x, w')"
    using load_Returns by blast
  have m: "consentManager ?a2 = consentManager a"
    by (simp add: setDefaultConsent_def dataLayer_push_def)
  show ?thesis
    using l m
    by (cases x)
       (auto simp add: init_def Let_def showBanner_def showFloatingWidget_def
             split: prod.splits outcome.splits dest!: applyConsent_stored_consentManager)
qed

lemma ScriptBlocker_init_currentConsent:
  "currentConsent (ScriptBlocker_init p b) = currentConsent b"
  by (simp add: ScriptBlocker_init_def observeDOM_def blockExistingScripts_def)

text \<open>
  \<^bold>\<open>Claim C2\<close> says that with a valid, unexpired record of revision 1 in storage and
  the policy at revision 2, \<open>needsConsent\<close> is false, \<open>needsUpdate\<close> is true, and the
  system asks again instead of applying the old decision.  \<open>needsConsent\<close> takes no
  record and does not read the storage; it tells whether a decision was submitted to
  this consent manager.  As amended: when the stored record is unexpired and older than
  the policy's revision, \<open>needsUpdate\<close> is true and \<open>init\<close> returns without applying the
  stored decision: the script blocker is as the withholding pass left it, but for the
  emitted events, and its consent is as before; the banner is shown when \<open>autoShow\<close> is
  on; the consent manager is unchanged, so \<open>needsConsent\<close> is as before \<open>init\<close>, and it
  is true for a newly constructed instance.
\<close>

theorem stale_record_asks_again:
  assumes "fst (load p (window a)) = Returns (Some v)"
    and "\<not> isExpired p now (ConsentRecord_of_js v)"
    and "version (ConsentRecord_of_js v) < revision (config (consentManager a))"
  shows "needsUpdate (consentManager a) (ConsentRecord_of_js v) = True \<and>
         fst (init p now a) = Returns () \<and>
         banner (snd (init p now a)) = (banner a \<or> autoShow (config (consentManager a)) = Some True) \<and>
         scriptBlocker (snd (init p now a)) =
           emit_event ''consent:init'' JUndefined
             (if autoShow (config (consentManager a)) = Some True
              then emit_event ''consent:show'' JUndefined (ScriptBlocker_init p (scriptBlocker a))
              else ScriptBlocker_init p (scriptBlocker a)) \<and>
         currentConsent (scriptBlocker (snd (init p now a))) = currentConsent (scriptBlocker a) \<and>
         consentManager (snd (init p now a)) = consentManager a \<and>
         needsConsent (consentManager (snd (init p now a))) = needsConsent (consentManager a) \<and>
         needsConsent (consentManager (CookieConsent_new cfg st h doc n)) = True"
proof -
  obtain w' where l: "load p (window a) = (Returns (Some v), w')"
    using assms(1) by (cases "load p (window a)") auto
  have stale: "needsUpdate (consentManager a) (ConsentRecord_of_js v)"
    using assms(3) by (simp add: needsUpdate_def)
  have i: "fst (init p now a) = Returns ()"
     "banner (snd (init p now a)) = (banner a \<or> autoShow (config (consentManager a)) = Some True)"
     "scriptBlocker (snd (init p now a)) =
           emit_event ''consent:init'' JUndefined
             (if autoShow (config (consentManager a)) = Some True
              then emit_event ''consent:show'' JUndefined (ScriptBlocker_init p (scriptBlocker a))
              else ScriptBlocker_init p (scriptBlocker a))"
    using l assms(2) stale
    by (simp_all add: init_def Let_def showBanner_def setDefaultConsent_def dataLayer_push_def)
  from i(3) have c: "currentConsent (scriptBlocker (snd (init p now a))) = currentConsent (scriptBlocker a)"
    by (simp add: emit_event_def ScriptBlocker_init_currentConsent)
  have fresh: "needsConsent (consentManager (CookieConsent_new cfg st h doc n)) = True"
    by (simp add: needsConsent_def CookieConsent_new_def ConsentManager_new_def)
  from stale i c fresh init_consentManager [of p now a] show ?thesis by simp
qed

lemma sample_load:
  "fst (load sample_platform (window sample_app)) = Returns (Some (ConsentRecord_js sample_record))"
  by (simp add: sample_app_def CookieConsent_new_def load_def load_body_def try_catch_def getItem_def
      sample_storage_def sample_platform_def validateSchema_ConsentRecord_js)

lemma sample_not_expired: "\<not> isExpired sample_platform sample_now sample_record"
  by (simp add: isExpired_def sample_platform_def sample_record_def sample_now_def Date_less_def
      Date_key_def)

lemma sample_revisions:
  "version sample_record = 1" "revision (config (consentManager sample_app)) = 2"
  "autoShow (config (consentManager sample_app)) = Some True"
  by (simp_all add: sample_record_def sample_app_def CookieConsent_new_def ConsentManager_new_def
      validateConfig_def sample_config_def)

theorem stale_record_asks_again_witness:
  "fst (load sample_platform (window sample_app)) = Returns (Some (ConsentRecord_js sample_record)) \<and>
   \<not> isExpired sample_platform sample_now (ConsentRecord_of_js (ConsentRecord_js sample_record)) \<and>
   version (ConsentRecord_of_js (ConsentRecord_js sample_record)) = 1 \<and>
   revision (config (consentManager sample_app)) = 2 \<and>
   needsUpdate (consentManager sample_app) (ConsentRecord_of_js (ConsentRecord_js sample_record)) = True \<and>
   fst (init sample_platform sample_now sample_app) = Returns () \<and>
   banner (snd (init sample_platform sample_now sample_app)) = True \<and>
   currentConsent (scriptBlocker (snd (init sample_platform sample_now sample_app))) = None"
proof -
  have h: "fst (load sample_platform (window sample_app)) = Returns (Some (ConsentRecord_js sample_record))"
    "\<not> isExpired sample_platform sample_now (ConsentRecord_of_js (ConsentRecord_js sample_record))"
    "version (ConsentRecord_of_js (ConsentRecord_js sample_record)) = 1"
    "revision (config (consentManager sample_app)) = 2"
    by (simp_all add: sample_load sample_not_expired sample_revisions ConsentRecord_of_js_inverse)
  then have lt: "version (ConsentRecord_of_js (ConsentRecord_js sample_record))
                   < revision (config (consentManager sample_app))"
    by simp
  have none: "currentConsent (scriptBlocker sample_app) = None"
    by (simp add: sample_app_def CookieConsent_new_def ScriptBlocker_new_def)
  from stale_record_asks_again [OF h(1,2) lt, of sample_config "sample_storage None" sample_heap "[]" 0]
  have "needsUpdate (consentManager sample_app) (ConsentRecord_of_js (ConsentRecord_js sample_record)) = True"
    "fst (init sample_platform sample_now sample_app) = Returns ()"
    "banner (snd (init sample_platform sample_now sample_app))
       = (banner sample_app \<or> autoShow (config (consentManager sample_app)) = Some True)"
    "currentConsent (scriptBlocker (snd (init sample_platform sample_now sample_app)))
       = currentConsent (scriptBlocker sample_app)"
    by blast+
  with sample_revisions(3) none h show ?thesis
    by simp
qed

lemma sample_quiet_load:
  "fst (load sample_platform (window sample_quiet_app)) = Returns (Some (ConsentRecord_js sample_record))"
  by (simp add: sample_quiet_app_def CookieConsent_new_def load_def load_body_def try_catch_def getItem_def
      sample_storage_def sample_platform_def validateSchema_ConsentRecord_js)

lemma sample_quiet_init:
  "banner (snd (init sample_platform sample_now sample_quiet_app)) = False \<and>
   emitted (scriptBlocker (snd (init sample_platform sample_now sample_quiet_app))) = [(''consent:init'', JUndefined)]"
proof -
  obtain w' where l: "load sample_platform (window sample_quiet_app) = (Returns (Some (ConsentRecord_js sample_record)), w')"
    using sample_quiet_load by (cases "load sample_platform (window sample_quiet_app)") auto
  have c: "config (consentManager sample_quiet_app) = validateConfig (sample_config\<lparr>autoShow := Some False\<rparr>)"
     "gtmIntegration sample_quiet_app = False" "banner sample_quiet_app = False"
     "emitted (scriptBlocker sample_quiet_app) = []"
    by (simp_all add: sample_quiet_app_def CookieConsent_new_def ConsentManager_new_def validateConfig_def
        sample_config_def ScriptBlocker_new_def)
  show ?thesis
    using l c sample_not_expired
    by (simp add: init_def Let_def ConsentRecord_of_js_inverse needsUpdate_def sample_record_def
        validateConfig_def sample_config_def emit_event_def ScriptBlocker_init_def observeDOM_def
        blockExistingScripts_def)
qed

text \<open>
  On the sample page the storage holds an unexpired record of revision 1 and the policy is
  at revision 2: \<open>needsConsent\<close> is true, before and after \<open>init\<close>.  With \<open>autoShow\<close>
  switched off, \<open>init\<close> in the same state shows no banner and emits no
  \<open>consent:show\<close>.
\<close>

theorem fresh_session_needs_consent:
  "fst (load sample_platform (window sample_app)) = Returns (Some (ConsentRecord_js sample_record)) \<and>
   version sample_record = 1 \<and>
   \<not> isExpired sample_platform sample_now sample_record \<and>
   revision (config (consentManager sample_app)) = 2 \<and>
   needsConsent (consentManager sample_app) = True \<and>
   needsConsent (consentManager (snd (init sample_platform sample_now sample_app))) = True \<and>
   fst (load sample_platform (window sample_quiet_app))
     = Returns (Some (ConsentRecord_js sample_record)) \<and>
   revision (config (consentManager sample_quiet_app)) = 2 \<and>
   banner (snd (init sample_platform sample_now sample_quiet_app)) = False \<and>
   emitted (scriptBlocker (snd (init sample_platform sample_now sample_quiet_app)))
     = [(''consent:init'', JUndefined)]"
proof -
  have "needsConsent (consentManager sample_app) = True"
    by (simp add: needsConsent_def sample_app_def CookieConsent_new_def ConsentManager_new_def)
  moreover have "revision (config (consentManager sample_quiet_app)) = 2"
    by (simp add: sample_quiet_app_def CookieConsent_new_def ConsentManager_new_def
        validateConfig_def sample_config_def)
  ultimately show ?thesis
    using sample_load sample_not_expired sample_revisions sample_quiet_load sample_quiet_init
    by (simp add: init_consentManager)
qed

text \<open>
  A stored record that passes \<^verbatim>\<open>validateSchema\<close> with \<open>categories\<close> null (its type is
  \<open>object\<close>), at the current revision and not expired: \<^verbatim>\<open>init\<close> hands null to
  \<^verbatim>\<open>unblock\<close>, which throws a TypeError at the first withheld script, and \<^verbatim>\<open>init\<close> ends
  with it, before it has emitted anything.
\<close>

lemma sample_null_load:
  "load sample_platform (window sample_null_app)
     = (Returns (Some sample_null_record), window sample_null_app)"
  by (simp add: sample_null_app_def CookieConsent_new_def load_def load_body_def try_catch_def getItem_def
      sample_storage_def sample_platform_def validateSchema_def sample_null_record_def STORAGE_KEY_def)

lemma sample_null_init:
  "fst (init sample_platform sample_now sample_null_app)
     = Throws (TypeError ''Cannot read properties of null'') \<and>
   emitted (scriptBlocker (snd (init sample_platform sample_now sample_null_app))) = []"
proof -
  have c: "config (consentManager sample_null_app) = validateConfig sample_config"
     "gtmIntegration sample_null_app = False"
     "scriptBlocker sample_null_app = sample_blocker"
    by (simp_all add: sample_null_app_def CookieConsent_new_def ConsentManager_new_def validateConfig_def
        sample_config_def sample_blocker_def)
  have l: "load sample_platform (window (sample_null_app\<lparr>scriptBlocker := ScriptBlocker_init sample_platform sample_blocker\<rparr>))
     = (Returns (Some sample_null_record), window sample_null_app)"
    using sample_null_load by simp
  have e: "\<not> isExpired sample_platform sample_now (ConsentRecord_of_js sample_null_record)"
    by (simp add: isExpired_def sample_platform_def sample_null_record_def sample_now_def Date_less_def
      Date_key_def ConsentRecord_of_js_def)
  have n: "\<not> needsUpdate (consentManager sample_null_app) (ConsentRecord_of_js sample_null_record)"
    by (simp add: needsUpdate_def c validateConfig_def sample_config_def ConsentRecord_of_js_def
        sample_null_record_def)
  have g: "js_get sample_null_record ''categories'' = JNull"
    by (simp add: sample_null_record_def)
  have u: "unblock_null sample_platform (ScriptBlocker_init sample_platform sample_blocker)
             = (Throws (TypeError ''Cannot read properties of null''),
                (ScriptBlocker_init sample_platform sample_blocker)\<lparr>currentConsent := None\<rparr>)"
    by (simp add: unblock_null_def Let_def sample_init_blocked sample_init_heap sample_init_frame
        getCategoryForScript_def getAttribute_def)
  have m: "emitted (ScriptBlocker_init sample_platform sample_blocker) = []"
    by (simp add: ScriptBlocker_init_def observeDOM_def blockExistingScripts_def sample_blocker_def
        ScriptBlocker_new_def)
  show ?thesis
    using c l e n g u m
    by (simp add: init_def Let_def applyConsent_stored_def)
qed

subsection \<open>The event emitter\<close>





lemma Set_members_Nil [simp]: "Set_members [] = []"
  by (simp add: Set_members_def)

lemma Set_members_Cons [simp]:
  "Set_members (e # es) = (case e of None \<Rightarrow> Set_members es | Some h \<Rightarrow> h # Set_members es)"
  by (cases e) (simp_all add: Set_members_def)

lemma Set_members_append [simp]: "Set_members (xs @ ys) = Set_members xs @ Set_members ys"
  by (induction xs) (simp_all split: option.splits)



lemma Set_members_delete: "Set_members (Set_delete h es) = removeAll h (Set_members es)"
  by (induction es) (simp_all add: Set_delete_def split: option.splits)












lemma distinct_Set_members_delete:
  "distinct (Set_members es) \<Longrightarrow> distinct (Set_members (Set_delete h es))"
  by (simp add: Set_members_delete distinct_removeAll)



lemma Set_invariant_off:
  assumes "Set_invariant em"
  shows "Set_invariant (off event h em)"
proof (cases "map_of (events em) event")
  case None
  with assms show ?thesis by (simp add: off_def)
next
  case (Some r)
  then have "(event, r) \<in> set (events em)" by (rule map_of_SomeD)
  with assms have "distinct (Set_members (sets em r))"
    by (auto simp add: Set_invariant_def list_all_iff)
  then have "distinct (Set_members (Set_delete h (sets em r)))" by (rule distinct_Set_members_delete)
  with assms Some show ?thesis
    by (auto simp add: off_def Set_invariant_def list_all_iff)
qed













end
